theory Spec2Isabelle
  imports Main "HOL-Library.Word"
begin

unbundle bit_operations_syntax

section \<open>JavaScript values used by the decoder\<close>

text \<open>
  The input is a \<open>Uint8Array\<close>. Reading \<open>data[i]\<close> past its end gives
  \<open>undefined\<close> (modelled as \<open>None\<close>); a bitwise operator converts its operands
  with ToInt32, under which \<open>undefined\<close> is 0, and yields a signed 32-bit value.
\<close>

type_synonym byte = "8 word"

datatype js_error = Error string | TypeError | RangeError

definition rd :: "byte list \<Rightarrow> nat \<Rightarrow> byte option" where
  "rd data i = (if i < length data then Some (data ! i) else None)"

definition ToInt32 :: "byte option \<Rightarrow> 32 word" where
  "ToInt32 b = (case b of None \<Rightarrow> 0 | Some w \<Rightarrow> ucast w)"

text \<open>\<open>b0 | (b1 << 8)\<close>\<close>

definition u16le :: "byte option \<Rightarrow> byte option \<Rightarrow> int" where
  "u16le b0 b1 = sint (ToInt32 b0 OR push_bit 8 (ToInt32 b1))"

text \<open>\<open>b0 | (b1 << 8) << 16 >> 16\<close>: the shifts bind tighter than \<open>|\<close> and
  associate to the left, \<open>>>\<close> is the arithmetic shift.\<close>

definition s16le :: "byte option \<Rightarrow> byte option \<Rightarrow> int" where
  "s16le b0 b1 =
     sint (ToInt32 b0 OR signed_drop_bit 16 (push_bit 16 (push_bit 8 (ToInt32 b1))))"

text \<open>\<open>xs[i]\<close> on a JavaScript array whose elements may be holes.\<close>

definition js_index :: "'a option list \<Rightarrow> int \<Rightarrow> 'a option" where
  "js_index xs i = (if 0 \<le> i \<and> nat i < length xs then xs ! nat i else None)"

text \<open>\<open>xs[i]\<close> on a dense array: \<open>undefined\<close> out of range.\<close>

definition js_at :: "'a list \<Rightarrow> nat \<Rightarrow> 'a option" where
  "js_at xs i = (if i < length xs then Some (xs ! i) else None)"

text \<open>A property key: \<open>obj[undefined]\<close> is the property named \<open>"undefined"\<close>.\<close>

definition propertyKey :: "string option \<Rightarrow> string" where
  "propertyKey k = (case k of None \<Rightarrow> ''undefined'' | Some s \<Rightarrow> s)"

text \<open>\<open>a < b\<close> on numbers that may be \<open>undefined\<close>: \<open>undefined\<close> converts to NaN,
  and every comparison with NaN is false.\<close>

definition js_less :: "nat option \<Rightarrow> nat option \<Rightarrow> bool" where
  "js_less a b = (case (a, b) of (Some x, Some y) \<Rightarrow> x < y | _ \<Rightarrow> False)"

record chunk =
  chunk_type :: string
  chunk_size :: nat
  chunk_offset :: nat

section \<open>The legacy \<open>Parser\<close> class: generator and modulator records\<close>

definition GeneratorEnumeratorTable :: "string option list" where
  "GeneratorEnumeratorTable = [
     Some ''startAddrsOffset'',
     Some ''endAddrsOffset'',
     Some ''startloopAddrsOffset'',
     Some ''endloopAddrsOffset'',
     Some ''startAddrsCoarseOffset'',
     Some ''modLfoToPitch'',
     Some ''vibLfoToPitch'',
     Some ''modEnvToPitch'',
     Some ''initialFilterFc'',
     Some ''initialFilterQ'',
     Some ''modLfoToFilterFc'',
     Some ''modEnvToFilterFc'',
     Some ''endAddrsCoarseOffset'',
     Some ''modLfoToVolume'', None,
     Some ''chorusEffectsSend'',
     Some ''reverbEffectsSend'',
     Some ''pan'', None, None, None,
     Some ''delayModLFO'',
     Some ''freqModLFO'',
     Some ''delayVibLFO'',
     Some ''freqVibLFO'',
     Some ''delayModEnv'',
     Some ''attackModEnv'',
     Some ''holdModEnv'',
     Some ''decayModEnv'',
     Some ''sustainModEnv'',
     Some ''releaseModEnv'',
     Some ''keynumToModEnvHold'',
     Some ''keynumToModEnvDecay'',
     Some ''delayVolEnv'',
     Some ''attackVolEnv'',
     Some ''holdVolEnv'',
     Some ''decayVolEnv'',
     Some ''sustainVolEnv'',
     Some ''releaseVolEnv'',
     Some ''keynumToVolEnvHold'',
     Some ''keynumToVolEnvDecay'',
     Some ''instrument'', None,
     Some ''keyRange'',
     Some ''velRange'',
     Some ''startloopAddrsCoarseOffset'',
     Some ''keynum'',
     Some ''velocity'',
     Some ''initialAttenuation'', None,
     Some ''endloopAddrsCoarseOffset'',
     Some ''coarseTune'',
     Some ''fineTune'',
     Some ''sampleID'',
     Some ''sampleModes'', None,
     Some ''scaleTuning'',
     Some ''exclusiveClass'',
     Some ''overridingRootKey'',
     Some ''endOper'']"

text \<open>The three shapes of a record's \<open>value\<close> object.\<close>

datatype gen_value =
    RawV int int "byte option" "byte option"   \<comment> \<open>\<open>{code, amount, lo, hi}\<close>\<close>
  | RangeV "byte option" "byte option"         \<comment> \<open>\<open>{lo, hi}\<close>\<close>
  | AmountV int                                \<comment> \<open>\<open>{amount}\<close>\<close>

text \<open>A decoded record \<open>{type, value}\<close>; \<open>gtype = None\<close> is a \<open>type\<close> that is
  \<open>undefined\<close>.\<close>

record gen_record =
  gtype :: "string option"
  gvalue :: gen_value

text \<open>The body of the \<open>while\<close> loop of \<open>parseGenerator\<close>, with \<open>ip\<close> the position
  at the start of the iteration; every path advances \<open>ip\<close> by 4.\<close>

definition parseGenerator_record :: "byte list \<Rightarrow> nat \<Rightarrow> gen_record" where
  "parseGenerator_record data ip =
     (let code = u16le (rd data ip) (rd data (ip + 1));
          key = js_index GeneratorEnumeratorTable code
      in case key of
           None \<Rightarrow>
             \<lparr>gtype = key,
              gvalue = RawV code (s16le (rd data (ip + 2)) (rd data (ip + 3)))
                         (rd data (ip + 2)) (rd data (ip + 3))\<rparr>
         | Some k \<Rightarrow>
             if k = ''keynum'' \<or> k = ''keyRange'' \<or> k = ''velRange'' \<or> k = ''velocity''
             then \<lparr>gtype = key, gvalue = RangeV (rd data (ip + 2)) (rd data (ip + 3))\<rparr>
             else \<lparr>gtype = key,
                   gvalue = AmountV (s16le (rd data (ip + 2)) (rd data (ip + 3)))\<rparr>)"

function parseGenerator_loop ::
  "byte list \<Rightarrow> nat \<Rightarrow> nat \<Rightarrow> gen_record list \<Rightarrow> gen_record list" where
  "parseGenerator_loop data size0 ip output =
     (if ip < size0
      then parseGenerator_loop data size0 (ip + 4) (output @ [parseGenerator_record data ip])
      else output)"
  by pat_completeness auto
termination
  by (relation "measure (\<lambda>(data, size0, ip, output). size0 - ip)") auto

definition parseGenerator :: "byte list \<Rightarrow> chunk \<Rightarrow> gen_record list" where
  "parseGenerator data c =
     parseGenerator_loop data (chunk_offset c + chunk_size c) (chunk_offset c) []"

text \<open>The body of the loop of \<open>parseModulator\<close>: the source operator (2 bytes) is
  skipped, the destination operator is the code, then the amount, then the amount source
  and transform operators (2 bytes each) are skipped: 10 bytes a record.\<close>

definition parseModulator_record :: "byte list \<Rightarrow> nat \<Rightarrow> gen_record" where
  "parseModulator_record data ip =
     (let code = u16le (rd data (ip + 2)) (rd data (ip + 3));
          key = js_index GeneratorEnumeratorTable code
      in case key of
           None \<Rightarrow>
             \<lparr>gtype = key,
              gvalue = RawV code (s16le (rd data (ip + 4)) (rd data (ip + 5)))
                         (rd data (ip + 4)) (rd data (ip + 5))\<rparr>
         | Some k \<Rightarrow>
             if k = ''keyRange'' \<or> k = ''velRange'' \<or> k = ''keynum'' \<or> k = ''velocity''
             then \<lparr>gtype = key, gvalue = RangeV (rd data (ip + 4)) (rd data (ip + 5))\<rparr>
             else \<lparr>gtype = key,
                   gvalue = AmountV (s16le (rd data (ip + 4)) (rd data (ip + 5)))\<rparr>)"

function parseModulator_loop ::
  "byte list \<Rightarrow> nat \<Rightarrow> nat \<Rightarrow> gen_record list \<Rightarrow> gen_record list" where
  "parseModulator_loop data size0 ip output =
     (if ip < size0
      then parseModulator_loop data size0 (ip + 10) (output @ [parseModulator_record data ip])
      else output)"
  by pat_completeness auto
termination
  by (relation "measure (\<lambda>(data, size0, ip, output). size0 - ip)") auto

definition parseModulator :: "byte list \<Rightarrow> chunk \<Rightarrow> gen_record list" where
  "parseModulator data c =
     parseModulator_loop data (chunk_offset c + chunk_size c) (chunk_offset c) []"

section \<open>The legacy \<open>Parser\<close> class: header and bag records\<close>

text \<open>\<open>(b0 | b1 << 8 | b2 << 16 | b3 << 24) >>> 0\<close>: the unsigned reading.\<close>

definition u32le :: "byte option \<Rightarrow> byte option \<Rightarrow> byte option \<Rightarrow> byte option \<Rightarrow> int" where
  "u32le b0 b1 b2 b3 =
     uint (ToInt32 b0 OR push_bit 8 (ToInt32 b1) OR push_bit 16 (ToInt32 b2)
           OR push_bit 24 (ToInt32 b3))"

text \<open>\<open>(b << 24) >> 24\<close>: a signed byte.\<close>

definition s8 :: "byte option \<Rightarrow> int" where
  "s8 b = sint (signed_drop_bit 24 (push_bit 24 (ToInt32 b)))"

text \<open>\<open>data.subarray(b, e)\<close>: a negative index counts from the end, both ends are
  clamped to the array, and the result is empty when the end is not after the begin.\<close>

definition relative_index :: "nat \<Rightarrow> int \<Rightarrow> nat" where
  "relative_index len i = (if i < 0 then nat (max 0 (int len + i)) else min (nat i) len)"

definition subarray :: "'a list \<Rightarrow> int \<Rightarrow> int \<Rightarrow> 'a list" where
  "subarray data b e =
     take (relative_index (length data) e - relative_index (length data) b)
       (drop (relative_index (length data) b) data)"

text \<open>\<open>String.fromCharCode.apply(null, bytes)\<close>: one character a byte, nothing
  trimmed.\<close>

definition fromCharCode :: "byte list \<Rightarrow> string" where
  "fromCharCode bs = map (\<lambda>b. char_of (uint b)) bs"

record PresetHeader =
  presetName :: string
  preset :: int
  bank :: int
  presetBagIndex :: nat
  library :: int
  genre :: int
  morphology :: int

record Instrument =
  instrumentName :: string
  instrumentBagIndex :: nat

record SampleHeader =
  sampleName :: string
  start :: int
  endSample :: int         \<comment> \<open>the field \<open>end\<close>\<close>
  startLoop :: int
  endLoop :: int
  sampleRate :: int
  originalPitch :: "byte option"
  pitchCorrection :: int
  sampleLink :: int
  sampleType :: int

text \<open>A bag is a plain object with two numeric properties; reading a property it does
  not have gives \<open>undefined\<close>.\<close>

type_synonym js_object = "string \<rightharpoonup> nat"

definition parsePhdr_record :: "byte list \<Rightarrow> nat \<Rightarrow> PresetHeader" where
  "parsePhdr_record data ip =
     \<lparr>presetName = fromCharCode (subarray data (int ip) (int ip + 20)),
      preset = u16le (rd data (ip + 20)) (rd data (ip + 21)),
      bank = u16le (rd data (ip + 22)) (rd data (ip + 23)),
      presetBagIndex = nat (u16le (rd data (ip + 24)) (rd data (ip + 25))),
      library = u32le (rd data (ip + 26)) (rd data (ip + 27)) (rd data (ip + 28))
                  (rd data (ip + 29)),
      genre = u32le (rd data (ip + 30)) (rd data (ip + 31)) (rd data (ip + 32))
                (rd data (ip + 33)),
      morphology = u32le (rd data (ip + 34)) (rd data (ip + 35)) (rd data (ip + 36))
                     (rd data (ip + 37))\<rparr>"

function parsePhdr_loop ::
  "byte list \<Rightarrow> nat \<Rightarrow> nat \<Rightarrow> PresetHeader list \<Rightarrow> PresetHeader list" where
  "parsePhdr_loop data size0 ip presetHeader =
     (if ip < size0
      then parsePhdr_loop data size0 (ip + 38) (presetHeader @ [parsePhdr_record data ip])
      else presetHeader)"
  by pat_completeness auto
termination
  by (relation "measure (\<lambda>(data, size0, ip, acc). size0 - ip)") auto


definition parseInst_record :: "byte list \<Rightarrow> nat \<Rightarrow> Instrument" where
  "parseInst_record data ip =
     \<lparr>instrumentName = fromCharCode (subarray data (int ip) (int ip + 20)),
      instrumentBagIndex = nat (u16le (rd data (ip + 20)) (rd data (ip + 21)))\<rparr>"

function parseInst_loop ::
  "byte list \<Rightarrow> nat \<Rightarrow> nat \<Rightarrow> Instrument list \<Rightarrow> Instrument list" where
  "parseInst_loop data size0 ip instrument =
     (if ip < size0
      then parseInst_loop data size0 (ip + 22) (instrument @ [parseInst_record data ip])
      else instrument)"
  by pat_completeness auto
termination
  by (relation "measure (\<lambda>(data, size0, ip, acc). size0 - ip)") auto


definition parsePbag_record :: "byte list \<Rightarrow> nat \<Rightarrow> js_object" where
  "parsePbag_record data ip =
     [''presetGeneratorIndex'' \<mapsto> nat (u16le (rd data ip) (rd data (ip + 1))),
      ''presetModulatorIndex'' \<mapsto> nat (u16le (rd data (ip + 2)) (rd data (ip + 3)))]"

definition parseIbag_record :: "byte list \<Rightarrow> nat \<Rightarrow> js_object" where
  "parseIbag_record data ip =
     [''instrumentGeneratorIndex'' \<mapsto> nat (u16le (rd data ip) (rd data (ip + 1))),
      ''instrumentModulatorIndex'' \<mapsto> nat (u16le (rd data (ip + 2)) (rd data (ip + 3)))]"

text \<open>The loops of \<open>parsePbag\<close> and \<open>parseIbag\<close> differ only in the object they
  push.\<close>

function parseBag_loop ::
  "(byte list \<Rightarrow> nat \<Rightarrow> js_object) \<Rightarrow> byte list \<Rightarrow> nat \<Rightarrow> nat \<Rightarrow> js_object list
     \<Rightarrow> js_object list" where
  "parseBag_loop mk data size0 ip zone =
     (if ip < size0
      then parseBag_loop mk data size0 (ip + 4) (zone @ [mk data ip])
      else zone)"
  by pat_completeness auto
termination
  by (relation "measure (\<lambda>(mk, data, size0, ip, acc). size0 - ip)") auto

definition Parser_parsePbag :: "byte list \<Rightarrow> chunk \<Rightarrow> js_error + js_object list" where
  "Parser_parsePbag data c =
     (if chunk_type c \<noteq> ''pbag'' then Inl (Error (''invalid chunk type:'' @ chunk_type c))
      else Inr (parseBag_loop parsePbag_record data (chunk_offset c + chunk_size c)
                  (chunk_offset c) []))"

definition Parser_parseIbag :: "byte list \<Rightarrow> chunk \<Rightarrow> js_error + js_object list" where
  "Parser_parseIbag data c =
     (if chunk_type c \<noteq> ''ibag'' then Inl (Error (''invalid chunk type:'' @ chunk_type c))
      else Inr (parseBag_loop parseIbag_record data (chunk_offset c + chunk_size c)
                  (chunk_offset c) []))"

definition Parser_parsePgen :: "byte list \<Rightarrow> chunk \<Rightarrow> js_error + gen_record list" where
  "Parser_parsePgen data c =
     (if chunk_type c \<noteq> ''pgen'' then Inl (Error (''invalid chunk type:'' @ chunk_type c))
      else Inr (parseGenerator data c))"

definition Parser_parseIgen :: "byte list \<Rightarrow> chunk \<Rightarrow> js_error + gen_record list" where
  "Parser_parseIgen data c =
     (if chunk_type c \<noteq> ''igen'' then Inl (Error (''invalid chunk type:'' @ chunk_type c))
      else Inr (parseGenerator data c))"

definition Parser_parsePmod :: "byte list \<Rightarrow> chunk \<Rightarrow> js_error + gen_record list" where
  "Parser_parsePmod data c =
     (if chunk_type c \<noteq> ''pmod'' then Inl (Error (''invalid chunk type:'' @ chunk_type c))
      else Inr (parseModulator data c))"

definition Parser_parseImod :: "byte list \<Rightarrow> chunk \<Rightarrow> js_error + gen_record list" where
  "Parser_parseImod data c =
     (if chunk_type c \<noteq> ''imod'' then Inl (Error (''invalid chunk type:'' @ chunk_type c))
      else Inr (parseModulator data c))"

section \<open>Sample extraction and the doubling of low sample rates\<close>

type_synonym Int16Array = "16 word list"

text \<open>\<open>new Int16Array(new Uint8Array(bytes).buffer)\<close>: a view of the copied bytes as
  16-bit values (little-endian on every platform the code runs on); the constructor
  throws a RangeError when the byte length is odd.\<close>

fun int16_pairs :: "byte list \<Rightarrow> Int16Array" where
  "int16_pairs (lo # hi # bs) = word_cat hi lo # int16_pairs bs"
| "int16_pairs bs = []"

definition new_Int16Array :: "byte list \<Rightarrow> js_error + Int16Array" where
  "new_Int16Array bs = (if odd (length bs) then Inl RangeError else Inr (int16_pairs bs))"

text \<open>The inner \<open>for\<close> loop of \<open>adjustSampleData\<close>: every sample is written twice.\<close>

fun newSample :: "Int16Array \<Rightarrow> Int16Array" where
  "newSample [] = []"
| "newSample (x # xs) = x # x # newSample xs"

text \<open>The \<open>while\<close> loop of \<open>adjustSampleData\<close>, with the rate it compares against as
  a parameter. Nothing bounds the loop when the rate is not positive, so not returning is
  the value \<open>None\<close>. The result is \<open>(sample, multiply)\<close>.\<close>

partial_function (option) adjustSampleData_loop ::
  "int \<Rightarrow> Int16Array \<Rightarrow> int \<Rightarrow> int \<Rightarrow> (Int16Array \<times> int) option" where
  "adjustSampleData_loop threshold sample multiply rate =
     (if rate < threshold
      then adjustSampleData_loop threshold (newSample sample) (multiply * 2) (rate * 2)
      else Some (sample, multiply))"

declare adjustSampleData_loop.simps [code]

text \<open>\<open>Parser.adjustSampleData\<close> compares with \<open>this.sampleRate\<close>.\<close>

definition Parser_adjustSampleData ::
  "int \<Rightarrow> Int16Array \<Rightarrow> int \<Rightarrow> (Int16Array \<times> int) option" where
  "Parser_adjustSampleData this_sampleRate sample rate =
     adjustSampleData_loop this_sampleRate sample 1 rate"

text \<open>The constructor's \<open>optParams.sampleRate || 22050\<close>.\<close>

definition Parser_sampleRate :: "int option \<Rightarrow> int" where
  "Parser_sampleRate opt = (case opt of None \<Rightarrow> 22050 | Some r \<Rightarrow> if r = 0 then 22050 else r)"

text \<open>The function \<open>adjustSampleData\<close> of the module compares with the constant
  22050.\<close>

definition adjustSampleData :: "Int16Array \<Rightarrow> int \<Rightarrow> (Int16Array \<times> int) option" where
  "adjustSampleData sample rate = adjustSampleData_loop 22050 sample 1 rate"

text \<open>One iteration of the loop of \<open>Parser.parseShdr\<close>: the header fields are read,
  the sample is cut out of the sample data, the loop points are made relative to
  \<open>start\<close>, and then rate and loop points are scaled. The outer \<open>option\<close> is
  \<open>None\<close> when \<open>adjustSampleData\<close> does not return.\<close>

definition parseShdr_record ::
  "int \<Rightarrow> nat \<Rightarrow> byte list \<Rightarrow> nat \<Rightarrow> (js_error + Int16Array \<times> SampleHeader) option" where
  "parseShdr_record this_sampleRate samplingData_offset data ip =
     (let sampleName0 = fromCharCode (subarray data (int ip) (int ip + 20));
          start0 = u32le (rd data (ip + 20)) (rd data (ip + 21)) (rd data (ip + 22))
                     (rd data (ip + 23));
          end0 = u32le (rd data (ip + 24)) (rd data (ip + 25)) (rd data (ip + 26))
                   (rd data (ip + 27));
          startLoop0 = u32le (rd data (ip + 28)) (rd data (ip + 29)) (rd data (ip + 30))
                         (rd data (ip + 31));
          endLoop0 = u32le (rd data (ip + 32)) (rd data (ip + 33)) (rd data (ip + 34))
                       (rd data (ip + 35));
          sampleRate0 = u32le (rd data (ip + 36)) (rd data (ip + 37)) (rd data (ip + 38))
                          (rd data (ip + 39));
          originalPitch0 = rd data (ip + 40);
          pitchCorrection0 = s8 (rd data (ip + 41));
          sampleLink0 = u16le (rd data (ip + 42)) (rd data (ip + 43));
          sampleType0 = u16le (rd data (ip + 44)) (rd data (ip + 45))
      in case new_Int16Array (subarray data (int samplingData_offset + start0 * 2)
                                (int samplingData_offset + end0 * 2)) of
           Inl e \<Rightarrow> Some (Inl e)
         | Inr sample0 \<Rightarrow>
             (let startLoop1 = startLoop0 - start0;
                  endLoop1 = endLoop0 - start0
              in if sampleRate0 > 0
                 then (case Parser_adjustSampleData this_sampleRate sample0 sampleRate0 of
                         None \<Rightarrow> None
                       | Some (sample1, multiply) \<Rightarrow>
                           Some (Inr (sample1,
                             \<lparr>sampleName = sampleName0, start = start0, endSample = end0,
                              startLoop = startLoop1 * multiply,
                              endLoop = endLoop1 * multiply,
                              sampleRate = sampleRate0 * multiply,
                              originalPitch = originalPitch0,
                              pitchCorrection = pitchCorrection0,
                              sampleLink = sampleLink0, sampleType = sampleType0\<rparr>)))
                 else Some (Inr (sample0,
                             \<lparr>sampleName = sampleName0, start = start0, endSample = end0,
                              startLoop = startLoop1, endLoop = endLoop1,
                              sampleRate = sampleRate0,
                              originalPitch = originalPitch0,
                              pitchCorrection = pitchCorrection0,
                              sampleLink = sampleLink0, sampleType = sampleType0\<rparr>))))"

partial_function (option) parseShdr_loop ::
  "int \<Rightarrow> nat \<Rightarrow> byte list \<Rightarrow> nat \<Rightarrow> nat \<Rightarrow> Int16Array list \<Rightarrow> SampleHeader list
     \<Rightarrow> (js_error + Int16Array list \<times> SampleHeader list) option" where
  "parseShdr_loop this_sampleRate samplingData_offset data size0 ip samples sampleHeader =
     (if ip < size0
      then (case parseShdr_record this_sampleRate samplingData_offset data ip of
              None \<Rightarrow> None
            | Some (Inl e) \<Rightarrow> Some (Inl e)
            | Some (Inr (sample, header)) \<Rightarrow>
                parseShdr_loop this_sampleRate samplingData_offset data size0 (ip + 46)
                  (samples @ [sample]) (sampleHeader @ [header]))
      else Some (Inr (samples, sampleHeader)))"

declare parseShdr_loop.simps [code]

text \<open>\<open>Parser.parseShdr\<close>: the result is \<open>(this.sample, this.sampleHeader)\<close>.\<close>

definition Parser_parseShdr ::
  "int \<Rightarrow> chunk \<Rightarrow> byte list \<Rightarrow> chunk
     \<Rightarrow> (js_error + Int16Array list \<times> SampleHeader list) option" where
  "Parser_parseShdr this_sampleRate samplingData data c =
     (if chunk_type c \<noteq> ''shdr''
      then Some (Inl (Error (''invalid chunk type:'' @ chunk_type c)))
      else parseShdr_loop this_sampleRate (chunk_offset samplingData) data
             (chunk_offset c + chunk_size c) (chunk_offset c) [] [])"

section \<open>The legacy \<open>Parser\<close> class: zones\<close>

text \<open>The merged object \<open>modgen\<close> maps a property name to a value object, except
  for its property \<open>unknown\<close>, which holds an array of value objects.\<close>

datatype modgen_entry = UnknownList "gen_value list" | Entry gen_value

record bag_modgen =
  modgen :: "string \<rightharpoonup> modgen_entry"
  modgenInfo :: "gen_record list"

text \<open>The object \<open>modgen\<close> starts as \<open>{unknown: [], keyRange: {hi: 127, lo: 0}}\<close>.\<close>

definition modgen_init :: "string \<rightharpoonup> modgen_entry" where
  "modgen_init = [''unknown'' \<mapsto> UnknownList [], ''keyRange'' \<mapsto> Entry (RangeV (Some 0) (Some 127))]"

text \<open>The body of the loop of \<open>createBagModGen\<close> at index \<open>i\<close>. Reading
  \<open>info.type\<close> of an element that does not exist throws a TypeError.\<close>

definition createBagModGen_step ::
  "gen_record list \<Rightarrow> bag_modgen \<Rightarrow> nat \<Rightarrow> js_error + bag_modgen" where
  "createBagModGen_step zoneModGen st i =
     (case js_at zoneModGen i of
        None \<Rightarrow> Inl TypeError
      | Some info \<Rightarrow>
          if gtype info = Some ''unknown''
          then (case modgen st ''unknown'' of
                  Some (UnknownList vs) \<Rightarrow>
                    Inr \<lparr>modgen = (modgen st)(''unknown'' \<mapsto> UnknownList (vs @ [gvalue info])),
                         modgenInfo = modgenInfo st @ [info]\<rparr>
                | _ \<Rightarrow> Inl TypeError)
          else Inr \<lparr>modgen = (modgen st)(propertyKey (gtype info) \<mapsto> Entry (gvalue info)),
                    modgenInfo = modgenInfo st @ [info]\<rparr>)"

fun createBagModGen_loop ::
  "gen_record list \<Rightarrow> nat list \<Rightarrow> bag_modgen \<Rightarrow> js_error + bag_modgen" where
  "createBagModGen_loop zoneModGen [] st = Inr st"
| "createBagModGen_loop zoneModGen (i # rest) st =
     (case createBagModGen_step zoneModGen st i of
        Inl e \<Rightarrow> Inl e
      | Inr st' \<Rightarrow> createBagModGen_loop zoneModGen rest st')"

text \<open>The indices \<open>for (i = a, il = b; i < il; ++i)\<close> visits: none when either bound is
  \<open>undefined\<close>, since the comparison is then false.\<close>

definition for_range :: "nat option \<Rightarrow> nat option \<Rightarrow> nat list" where
  "for_range a b = (if js_less a b then [the a ..< the b] else [])"

definition createBagModGen ::
  "js_object list \<Rightarrow> nat option \<Rightarrow> nat option \<Rightarrow> gen_record list \<Rightarrow> js_error + bag_modgen" where
  "createBagModGen zone indexStart indexEnd zoneModGen =
     createBagModGen_loop zoneModGen (for_range indexStart indexEnd)
       \<lparr>modgen = modgen_init, modgenInfo = []\<rparr>"

text \<open>The fields of the \<open>Parser\<close> object that the zone functions read.\<close>

record Parser =
  this_presetHeader :: "PresetHeader list"
  this_presetZone :: "js_object list"
  this_presetZoneModulator :: "gen_record list"
  this_presetZoneGenerator :: "gen_record list"
  this_instrument :: "Instrument list"
  this_instrumentZone :: "js_object list"
  this_instrumentZoneModulator :: "gen_record list"
  this_instrumentZoneGenerator :: "gen_record list"

text \<open>\<open>zone[index].name\<close>: a TypeError when \<open>zone[index]\<close> does not exist, otherwise
  the property, which may be \<open>undefined\<close>. Then
  \<open>zone[index + 1] ? zone[index + 1].name : length\<close>; an object is always truthy.
  The four functions return the result of \<open>createBagModGen_\<close> with its two fields
  renamed, which the model leaves as they are. (The trailing underscore of the source's
  private names is dropped.)\<close>

definition createInstrumentGenerator ::
  "Parser \<Rightarrow> js_object list \<Rightarrow> nat \<Rightarrow> js_error + bag_modgen" where
  "createInstrumentGenerator this zone index =
     (case js_at zone index of
        None \<Rightarrow> Inl TypeError
      | Some z \<Rightarrow>
          createBagModGen zone
            (z ''instrumentGeneratorIndex'')
            (case js_at zone (index + 1) of
               Some z1 \<Rightarrow> z1 ''instrumentGeneratorIndex''
             | None \<Rightarrow> Some (length (this_instrumentZoneGenerator this)))
            (this_instrumentZoneGenerator this))"

definition createInstrumentModulator ::
  "Parser \<Rightarrow> js_object list \<Rightarrow> nat \<Rightarrow> js_error + bag_modgen" where
  "createInstrumentModulator this zone index =
     (case js_at zone index of
        None \<Rightarrow> Inl TypeError
      | Some z \<Rightarrow>
          createBagModGen zone
            (z ''presetModulatorIndex'')
            (case js_at zone (index + 1) of
               Some z1 \<Rightarrow> z1 ''instrumentModulatorIndex''
             | None \<Rightarrow> Some (length (this_instrumentZoneModulator this)))
            (this_instrumentZoneModulator this))"

definition createPresetGenerator ::
  "Parser \<Rightarrow> js_object list \<Rightarrow> nat \<Rightarrow> js_error + bag_modgen" where
  "createPresetGenerator this zone index =
     (case js_at zone index of
        None \<Rightarrow> Inl TypeError
      | Some z \<Rightarrow>
          createBagModGen zone
            (z ''presetGeneratorIndex'')
            (case js_at zone (index + 1) of
               Some z1 \<Rightarrow> z1 ''presetGeneratorIndex''
             | None \<Rightarrow> Some (length (this_presetZoneGenerator this)))
            (this_presetZoneGenerator this))"

definition createPresetModulator ::
  "Parser \<Rightarrow> js_object list \<Rightarrow> nat \<Rightarrow> js_error + bag_modgen" where
  "createPresetModulator this zone index =
     (case js_at zone index of
        None \<Rightarrow> Inl TypeError
      | Some z \<Rightarrow>
          createBagModGen zone
            (z ''presetModulatorIndex'')
            (case js_at zone (index + 1) of
               Some z1 \<Rightarrow> z1 ''presetModulatorIndex''
             | None \<Rightarrow> Some (length (this_presetZoneModulator this)))
            (this_presetZoneModulator this))"

record zone_info =
  generator :: "string \<rightharpoonup> modgen_entry"
  generatorSequence :: "gen_record list"
  modulator :: "string \<rightharpoonup> modgen_entry"
  modulatorSequence :: "gen_record list"

record instrument_info =
  name :: string
  inst_info :: "zone_info list"     \<comment> \<open>the property \<open>info\<close>\<close>

text \<open>The inner loop of \<open>createInstrument\<close> over the bags \<open>j\<close> of one instrument.\<close>

fun createInstrument_zones ::
  "Parser \<Rightarrow> js_object list \<Rightarrow> nat list \<Rightarrow> zone_info list \<Rightarrow> js_error + zone_info list" where
  "createInstrument_zones this zone [] zoneInfo = Inr zoneInfo"
| "createInstrument_zones this zone (j # rest) zoneInfo =
     (case createInstrumentGenerator this zone j of
        Inl e \<Rightarrow> Inl e
      | Inr instrumentGenerator \<Rightarrow>
          (case createInstrumentModulator this zone j of
             Inl e \<Rightarrow> Inl e
           | Inr instrumentModulator \<Rightarrow>
               createInstrument_zones this zone rest
                 (zoneInfo @
                  [\<lparr>generator = modgen instrumentGenerator,
                    generatorSequence = modgenInfo instrumentGenerator,
                    modulator = modgen instrumentModulator,
                    modulatorSequence = modgenInfo instrumentModulator\<rparr>])))"

text \<open>The outer loop over the instruments \<open>i\<close>.\<close>

fun createInstrument_loop ::
  "Parser \<Rightarrow> nat list \<Rightarrow> instrument_info list \<Rightarrow> js_error + instrument_info list" where
  "createInstrument_loop this [] output = Inr output"
| "createInstrument_loop this (i # rest) output =
     (let instrument = this_instrument this;
          zone = this_instrumentZone this;
          bagIndex = instrumentBagIndex (instrument ! i);
          bagIndexEnd = (case js_at instrument (i + 1) of
                           Some nxt \<Rightarrow> instrumentBagIndex nxt
                         | None \<Rightarrow> length zone)
      in case createInstrument_zones this zone [bagIndex ..< bagIndexEnd] [] of
           Inl e \<Rightarrow> Inl e
         | Inr zoneInfo \<Rightarrow>
             createInstrument_loop this rest
               (output @ [\<lparr>name = instrumentName (instrument ! i), inst_info = zoneInfo\<rparr>]))"

definition createInstrument :: "Parser \<Rightarrow> js_error + instrument_info list" where
  "createInstrument this =
     createInstrument_loop this [0 ..< length (this_instrument this)] []"

section \<open>The module function \<open>parse\<close>\<close>

text \<open>
  The module imports \<open>parseRiff\<close>, \<open>Stream\<close>, \<open>readString\<close>, \<open>InfoNameTable\<close>
  and the record classes of \<open>Structs\<close> from files whose source is not at hand.
  They are parameters of the model: a \<open>Stream\<close> is its data and its position \<open>ip\<close>,
  and a function that moves the position returns the new stream. Anything may throw.
\<close>

record Stream =
  stream_data :: "byte list"
  stream_ip :: nat  \<comment> \<open>the field \<open>ip\<close>\<close>

record ('o, 'pb, 'ib, 'ml, 'gl) externals =
  parseRiff :: "byte list \<Rightarrow> nat \<Rightarrow> int \<Rightarrow> 'o option \<Rightarrow> js_error + chunk list"
  Stream_readString :: "Stream \<Rightarrow> nat \<Rightarrow> js_error + string \<times> Stream"
  readString :: "byte list \<Rightarrow> nat \<Rightarrow> nat \<Rightarrow> js_error + string"
  InfoNameTable :: "string \<rightharpoonup> string"
  PresetHeader_parse :: "Stream \<Rightarrow> js_error + PresetHeader \<times> Stream"
  PresetBag_parse :: "Stream \<Rightarrow> js_error + 'pb \<times> Stream"
  Instrument_parse :: "Stream \<Rightarrow> js_error + Instrument \<times> Stream"
  InstrumentBag_parse :: "Stream \<Rightarrow> js_error + 'ib \<times> Stream"
  ModulatorList_parse :: "Stream \<Rightarrow> js_error + 'ml \<times> Stream"
  GeneratorList_parse :: "Stream \<Rightarrow> js_error + 'gl \<times> Stream"
  SampleHeader_parse :: "Stream \<Rightarrow> js_error + SampleHeader \<times> Stream"

text \<open>A computation that may throw and may not return: \<open>None\<close> is not returning,
  \<open>Some (Inl e)\<close> is the exception \<open>e\<close>.\<close>

definition and_then ::
  "(js_error + 'a) option \<Rightarrow> ('a \<Rightarrow> (js_error + 'b) option) \<Rightarrow> (js_error + 'b) option" where
  "and_then m f = (case m of None \<Rightarrow> None | Some (Inl e) \<Rightarrow> Some (Inl e) | Some (Inr x) \<Rightarrow> f x)"

definition getChunkList ::
  "('o, 'pb, 'ib, 'ml, 'gl) externals \<Rightarrow> chunk \<Rightarrow> byte list \<Rightarrow> string \<Rightarrow> string
     \<Rightarrow> js_error + chunk list" where
  "getChunkList ext c data expectedType expectedSignature =
     (if chunk_type c \<noteq> expectedType
      then Inl (Error (''invalid chunk type:'' @ chunk_type c))
      else case Stream_readString ext \<lparr>stream_data = data, stream_ip = chunk_offset c\<rparr> 4 of
             Inl e \<Rightarrow> Inl e
           | Inr (signature, stream) \<Rightarrow>
               if signature \<noteq> expectedSignature
               then Inl (Error (''invalid signature:'' @ signature))
               else parseRiff ext data (stream_ip stream) (int (chunk_size c) - 4) None)"

text \<open>The loop of \<open>parseInfoList\<close>; \<open>InfoNameTable[type] || type\<close> falls back to
  the tag when the table has no entry or an empty one.\<close>

fun parseInfoList_loop ::
  "('o, 'pb, 'ib, 'ml, 'gl) externals \<Rightarrow> byte list \<Rightarrow> chunk list \<Rightarrow> (string \<rightharpoonup> string)
     \<Rightarrow> js_error + (string \<rightharpoonup> string)" where
  "parseInfoList_loop ext data [] info0 = Inr info0"
| "parseInfoList_loop ext data (p # ps) info0 =
     (let name0 = (case InfoNameTable ext (chunk_type p) of
                     None \<Rightarrow> chunk_type p
                   | Some n \<Rightarrow> if n = [] then chunk_type p else n)
      in case readString ext data (chunk_offset p) (chunk_offset p + chunk_size p) of
           Inl e \<Rightarrow> Inl e
         | Inr v \<Rightarrow> parseInfoList_loop ext data ps (info0(name0 \<mapsto> v)))"

definition parseInfoList ::
  "('o, 'pb, 'ib, 'ml, 'gl) externals \<Rightarrow> chunk \<Rightarrow> byte list \<Rightarrow> js_error + (string \<rightharpoonup> string)" where
  "parseInfoList ext c data =
     (case getChunkList ext c data ''LIST'' ''INFO'' of
        Inl e \<Rightarrow> Inl e
      | Inr chunkList \<Rightarrow> parseInfoList_loop ext data chunkList Map.empty)"

definition parseSdtaList ::
  "('o, 'pb, 'ib, 'ml, 'gl) externals \<Rightarrow> chunk \<Rightarrow> byte list \<Rightarrow> js_error + chunk" where
  "parseSdtaList ext c data =
     (case getChunkList ext c data ''LIST'' ''sdta'' of
        Inl e \<Rightarrow> Inl e
      | Inr chunkList \<Rightarrow>
          if length chunkList \<noteq> 1 then Inl (Error ''TODO'') else Inr (chunkList ! 0))"

text \<open>The \<open>while\<close> loop of \<open>parseChunk\<close>. Only the factory moves the stream, so the
  loop is not bounded by itself.\<close>

partial_function (option) parseChunk_loop ::
  "(Stream \<Rightarrow> js_error + 'a \<times> Stream) \<Rightarrow> nat \<Rightarrow> Stream \<Rightarrow> 'a list
     \<Rightarrow> (js_error + 'a list) option" where
  "parseChunk_loop factory size0 stream result =
     (if stream_ip stream < size0
      then (case factory stream of
              Inl e \<Rightarrow> Some (Inl e)
            | Inr (x, stream') \<Rightarrow> parseChunk_loop factory size0 stream' (result @ [x]))
      else Some (Inr result))"

declare parseChunk_loop.simps [code]

definition parseChunk ::
  "chunk \<Rightarrow> byte list \<Rightarrow> string \<Rightarrow> (Stream \<Rightarrow> js_error + 'a \<times> Stream)
     \<Rightarrow> (js_error + 'a list) option" where
  "parseChunk c data type0 factory =
     (if chunk_type c \<noteq> type0
      then Some (Inl (Error (''invalid chunk type:'' @ chunk_type c)))
      else parseChunk_loop factory (chunk_offset c + chunk_size c)
             \<lparr>stream_data = data, stream_ip = chunk_offset c\<rparr> [])"

definition parsePhdr ::
  "('o, 'pb, 'ib, 'ml, 'gl) externals \<Rightarrow> chunk \<Rightarrow> byte list
     \<Rightarrow> (js_error + PresetHeader list) option" where
  "parsePhdr ext c data =
     and_then (parseChunk c data ''phdr'' (PresetHeader_parse ext))
       (\<lambda>r. Some (Inr (filter (\<lambda>p. presetName p \<noteq> ''EOP'') r)))"

definition parsePbag ::
  "('o, 'pb, 'ib, 'ml, 'gl) externals \<Rightarrow> chunk \<Rightarrow> byte list \<Rightarrow> (js_error + 'pb list) option" where
  "parsePbag ext c data = parseChunk c data ''pbag'' (PresetBag_parse ext)"

definition parseInst ::
  "('o, 'pb, 'ib, 'ml, 'gl) externals \<Rightarrow> chunk \<Rightarrow> byte list
     \<Rightarrow> (js_error + Instrument list) option" where
  "parseInst ext c data =
     and_then (parseChunk c data ''inst'' (Instrument_parse ext))
       (\<lambda>r. Some (Inr (filter (\<lambda>i. instrumentName i \<noteq> ''EOI'') r)))"

definition parseIbag ::
  "('o, 'pb, 'ib, 'ml, 'gl) externals \<Rightarrow> chunk \<Rightarrow> byte list \<Rightarrow> (js_error + 'ib list) option" where
  "parseIbag ext c data = parseChunk c data ''ibag'' (InstrumentBag_parse ext)"

definition parsePmod ::
  "('o, 'pb, 'ib, 'ml, 'gl) externals \<Rightarrow> chunk \<Rightarrow> byte list \<Rightarrow> (js_error + 'ml list) option" where
  "parsePmod ext c data = parseChunk c data ''pmod'' (ModulatorList_parse ext)"

definition parseImod ::
  "('o, 'pb, 'ib, 'ml, 'gl) externals \<Rightarrow> chunk \<Rightarrow> byte list \<Rightarrow> (js_error + 'ml list) option" where
  "parseImod ext c data = parseChunk c data ''imod'' (ModulatorList_parse ext)"

definition parsePgen ::
  "('o, 'pb, 'ib, 'ml, 'gl) externals \<Rightarrow> chunk \<Rightarrow> byte list \<Rightarrow> (js_error + 'gl list) option" where
  "parsePgen ext c data = parseChunk c data ''pgen'' (GeneratorList_parse ext)"

definition parseIgen ::
  "('o, 'pb, 'ib, 'ml, 'gl) externals \<Rightarrow> chunk \<Rightarrow> byte list \<Rightarrow> (js_error + 'gl list) option" where
  "parseIgen ext c data = parseChunk c data ''igen'' (GeneratorList_parse ext)"

definition parseShdr ::
  "('o, 'pb, 'ib, 'ml, 'gl) externals \<Rightarrow> chunk \<Rightarrow> byte list
     \<Rightarrow> (js_error + SampleHeader list) option" where
  "parseShdr ext c data =
     and_then (parseChunk c data ''shdr'' (SampleHeader_parse ext))
       (\<lambda>r. Some (Inr (filter (\<lambda>s. sampleName s \<noteq> ''EOS'') r)))"

text \<open>The object \<open>parsePdtaList\<close> returns, the one \<open>parseRiffChunk\<close> returns (the
  former with \<open>info\<close> and \<open>samplingData\<close>), and the \<open>ParseResult\<close> (the latter
  with \<open>sample\<close>).\<close>

record ('pb, 'ib, 'ml, 'gl) PdtaResult =
  presetHeader :: "PresetHeader list"
  presetZone :: "'pb list"
  presetZoneModulator :: "'ml list"
  presetZoneGenerator :: "'gl list"
  instrument :: "Instrument list"
  instrumentZone :: "'ib list"
  instrumentZoneModulator :: "'ml list"
  instrumentZoneGenerator :: "'gl list"
  sampleHeader :: "SampleHeader list"

record ('pb, 'ib, 'ml, 'gl) RiffResult = "('pb, 'ib, 'ml, 'gl) PdtaResult" +
  info :: "string \<rightharpoonup> string"
  samplingData :: chunk

record ('pb, 'ib, 'ml, 'gl) ParseResult = "('pb, 'ib, 'ml, 'gl) RiffResult" +
  sample :: "Int16Array list"

definition parsePdtaList ::
  "('o, 'pb, 'ib, 'ml, 'gl) externals \<Rightarrow> chunk \<Rightarrow> byte list
     \<Rightarrow> (js_error + ('pb, 'ib, 'ml, 'gl) PdtaResult) option" where
  "parsePdtaList ext c data =
     (case getChunkList ext c data ''LIST'' ''pdta'' of
        Inl e \<Rightarrow> Some (Inl e)
      | Inr chunkList \<Rightarrow>
          if length chunkList \<noteq> 9 then Some (Inl (Error ''invalid pdta chunk''))
          else
            and_then (parsePhdr ext (chunkList ! 0) data) (\<lambda>phdr.
            and_then (parsePbag ext (chunkList ! 1) data) (\<lambda>pbag.
            and_then (parsePmod ext (chunkList ! 2) data) (\<lambda>pmod.
            and_then (parsePgen ext (chunkList ! 3) data) (\<lambda>pgen.
            and_then (parseInst ext (chunkList ! 4) data) (\<lambda>inst.
            and_then (parseIbag ext (chunkList ! 5) data) (\<lambda>ibag.
            and_then (parseImod ext (chunkList ! 6) data) (\<lambda>imod.
            and_then (parseIgen ext (chunkList ! 7) data) (\<lambda>igen.
            and_then (parseShdr ext (chunkList ! 8) data) (\<lambda>shdr.
              Some (Inr \<lparr>presetHeader = phdr, presetZone = pbag,
                         presetZoneModulator = pmod, presetZoneGenerator = pgen,
                         instrument = inst, instrumentZone = ibag,
                         instrumentZoneModulator = imod, instrumentZoneGenerator = igen,
                         sampleHeader = shdr\<rparr>)))))))))))"

definition parseRiffChunk ::
  "('o, 'pb, 'ib, 'ml, 'gl) externals \<Rightarrow> chunk \<Rightarrow> byte list
     \<Rightarrow> (js_error + ('pb, 'ib, 'ml, 'gl) RiffResult) option" where
  "parseRiffChunk ext c data =
     (case getChunkList ext c data ''RIFF'' ''sfbk'' of
        Inl e \<Rightarrow> Some (Inl e)
      | Inr chunkList \<Rightarrow>
          if length chunkList \<noteq> 3 then Some (Inl (Error ''invalid sfbk structure''))
          else
            and_then (Some (parseInfoList ext (chunkList ! 0) data)) (\<lambda>info0.
            and_then (Some (parseSdtaList ext (chunkList ! 1) data)) (\<lambda>samplingData0.
            and_then (parsePdtaList ext (chunkList ! 2) data) (\<lambda>pdta.
              Some (Inr \<lparr>presetHeader = presetHeader pdta, presetZone = presetZone pdta,
                         presetZoneModulator = presetZoneModulator pdta,
                         presetZoneGenerator = presetZoneGenerator pdta,
                         instrument = instrument pdta, instrumentZone = instrumentZone pdta,
                         instrumentZoneModulator = instrumentZoneModulator pdta,
                         instrumentZoneGenerator = instrumentZoneGenerator pdta,
                         sampleHeader = sampleHeader pdta,
                         info = info0, samplingData = samplingData0\<rparr>)))))"

text \<open>The callback of \<open>loadSample\<close> for one header: it returns the sample and updates
  the header object in place, so the model returns the header too.\<close>

definition loadSample_header ::
  "nat \<Rightarrow> byte list \<Rightarrow> SampleHeader \<Rightarrow> (js_error + Int16Array \<times> SampleHeader) option" where
  "loadSample_header samplingDataOffset data header =
     (case new_Int16Array (subarray data (int samplingDataOffset + start header * 2)
                             (int samplingDataOffset + endSample header * 2)) of
        Inl e \<Rightarrow> Some (Inl e)
      | Inr sample0 \<Rightarrow>
          if sampleRate header > 0
          then (case adjustSampleData sample0 (sampleRate header) of
                  None \<Rightarrow> None
                | Some (sample1, multiply) \<Rightarrow>
                    Some (Inr (sample1,
                      header\<lparr>sampleRate := sampleRate header * multiply,
                             startLoop := startLoop header * multiply,
                             endLoop := endLoop header * multiply\<rparr>)))
          else Some (Inr (sample0, header)))"

text \<open>\<open>sampleHeader.map(...)\<close>: the samples, and the headers as the callback left
  them.\<close>

fun loadSample ::
  "SampleHeader list \<Rightarrow> nat \<Rightarrow> byte list
     \<Rightarrow> (js_error + Int16Array list \<times> SampleHeader list) option" where
  "loadSample [] samplingDataOffset data = Some (Inr ([], []))"
| "loadSample (header # rest) samplingDataOffset data =
     and_then (loadSample_header samplingDataOffset data header) (\<lambda>(s, h).
     and_then (loadSample rest samplingDataOffset data) (\<lambda>(ss, hs).
       Some (Inr (s # ss, h # hs))))"

text \<open>\<open>parse\<close>. The array \<open>result.sampleHeader\<close> holds the header objects that
  \<open>loadSample\<close> updates, so the returned \<open>sampleHeader\<close> is the updated one. The
  test \<open>chunk === null\<close> cannot hold for an element of a list of length 1.\<close>

definition parse ::
  "('o, 'pb, 'ib, 'ml, 'gl) externals \<Rightarrow> byte list \<Rightarrow> 'o
     \<Rightarrow> (js_error + ('pb, 'ib, 'ml, 'gl) ParseResult) option" where
  "parse ext input option0 =
     (case parseRiff ext input 0 (int (length input)) (Some option0) of
        Inl e \<Rightarrow> Some (Inl e)
      | Inr chunkList \<Rightarrow>
          if length chunkList \<noteq> 1 then Some (Inl (Error ''wrong chunk length''))
          else
            and_then (parseRiffChunk ext (chunkList ! 0) input) (\<lambda>result.
            and_then (loadSample (sampleHeader result) (chunk_offset (samplingData result)) input)
              (\<lambda>(samples, headers).
                Some (Inr \<lparr>presetHeader = presetHeader result,
                           presetZone = presetZone result,
                           presetZoneModulator = presetZoneModulator result,
                           presetZoneGenerator = presetZoneGenerator result,
                           instrument = instrument result,
                           instrumentZone = instrumentZone result,
                           instrumentZoneModulator = instrumentZoneModulator result,
                           instrumentZoneGenerator = instrumentZoneGenerator result,
                           sampleHeader = headers,
                           info = info result, samplingData = samplingData result,
                           sample = samples\<rparr>))))"

section \<open>The imported parts, modelled from the spec\<close>

text \<open>
  The sources of the cursor \<open>Stream\<close>, of the function \<open>readString\<close>, of the
  record classes of \<open>Structs\<close> and of the chunk walker \<open>parseRiff\<close> are missing.
  The definitions of this section follow the spec's sections 4.1 to 4.3 instead. The
  statements about \<open>parse\<close> hold for every choice of these parts; the definitions
  here only serve to run \<open>parse\<close> on example files.
\<close>

text \<open>Modelled from the spec: the trimming of trailing NUL bytes that the missing
  \<open>readString\<close> does.\<close>

definition trimNul :: "string \<Rightarrow> string" where
  "trimNul s = rev (dropWhile (\<lambda>ch. ch = CHR 0x00) (rev s))"

text \<open>Modelled from the spec: the missing method \<open>Stream.readString\<close>. A read
  consumes exactly its width and fails past the end of the buffer.\<close>

definition spec_Stream_readString :: "Stream \<Rightarrow> nat \<Rightarrow> js_error + string \<times> Stream" where
  "spec_Stream_readString s n =
     (if length (stream_data s) < stream_ip s + n then Inl (Error ''out of bounds'')
      else Inr (trimNul (fromCharCode (subarray (stream_data s) (int (stream_ip s))
                                          (int (stream_ip s) + int n))),
                s\<lparr>stream_ip := stream_ip s + n\<rparr>))"

text \<open>Modelled from the spec: the missing function \<open>readString\<close> of the module
  \<open>readString\<close>, which reads the bytes of a range as a string.\<close>

definition spec_readString :: "byte list \<Rightarrow> nat \<Rightarrow> nat \<Rightarrow> js_error + string" where
  "spec_readString data b e = Inr (trimNul (fromCharCode (subarray data (int b) (int e))))"

text \<open>Modelled from the spec: the missing static methods \<open>parse\<close> of the record
  classes of \<open>Structs\<close>. Each consumes its fixed width (38, 4, 10, 4, 22 and 46
  bytes) and fails past the end of the buffer.\<close>

definition spec_fixed_record ::
  "nat \<Rightarrow> (byte list \<Rightarrow> nat \<Rightarrow> 'a) \<Rightarrow> Stream \<Rightarrow> js_error + 'a \<times> Stream" where
  "spec_fixed_record width decode s =
     (if length (stream_data s) < stream_ip s + width then Inl (Error ''out of bounds'')
      else Inr (decode (stream_data s) (stream_ip s), s\<lparr>stream_ip := stream_ip s + width\<rparr>))"

text \<open>Modelled from the spec: the fields of the missing \<open>PresetHeader.parse\<close>,
  those the legacy class reads, with the name trimmed.\<close>

definition spec_PresetHeader :: "byte list \<Rightarrow> nat \<Rightarrow> PresetHeader" where
  "spec_PresetHeader data p =
     (parsePhdr_record data p)\<lparr>presetName := trimNul (presetName (parsePhdr_record data p))\<rparr>"

text \<open>Modelled from the spec: the fields of the missing \<open>Instrument.parse\<close>,
  those the legacy class reads, with the name trimmed.\<close>

definition spec_Instrument :: "byte list \<Rightarrow> nat \<Rightarrow> Instrument" where
  "spec_Instrument data p =
     (parseInst_record data p)\<lparr>instrumentName := trimNul (instrumentName (parseInst_record data p))\<rparr>"

text \<open>Modelled from the spec: the fields of the missing \<open>SampleHeader.parse\<close>,
  with the name trimmed and the loop points made relative to \<open>start\<close>.\<close>

definition spec_SampleHeader :: "byte list \<Rightarrow> nat \<Rightarrow> SampleHeader" where
  "spec_SampleHeader data p =
     (let start0 = u32le (rd data (p + 20)) (rd data (p + 21)) (rd data (p + 22))
                     (rd data (p + 23))
      in \<lparr>sampleName = trimNul (fromCharCode (subarray data (int p) (int p + 20))),
          start = start0,
          endSample = u32le (rd data (p + 24)) (rd data (p + 25)) (rd data (p + 26))
                        (rd data (p + 27)),
          startLoop = u32le (rd data (p + 28)) (rd data (p + 29)) (rd data (p + 30))
                        (rd data (p + 31)) - start0,
          endLoop = u32le (rd data (p + 32)) (rd data (p + 33)) (rd data (p + 34))
                      (rd data (p + 35)) - start0,
          sampleRate = u32le (rd data (p + 36)) (rd data (p + 37)) (rd data (p + 38))
                         (rd data (p + 39)),
          originalPitch = rd data (p + 40),
          pitchCorrection = s8 (rd data (p + 41)),
          sampleLink = u16le (rd data (p + 42)) (rd data (p + 43)),
          sampleType = u16le (rd data (p + 44)) (rd data (p + 45))\<rparr>)"

text \<open>Modelled from the spec: the walk of the missing chunk walker \<open>parseRiff\<close>
  (the spec's section 4.2). It lists the sibling chunks of a byte range; a
  chunk's declared size, padded to an even number of bytes, gives the start of the next
  chunk, and a chunk that would reach past the range is an error.\<close>

function spec_walk :: "byte list \<Rightarrow> nat \<Rightarrow> nat \<Rightarrow> js_error + chunk list" where
  "spec_walk data p end0 =
     (if p < end0
      then (if end0 < p + 8 + nat (u32le (rd data (p + 4)) (rd data (p + 5)) (rd data (p + 6))
                                     (rd data (p + 7)))
            then Inl (Error ''chunk size out of bounds'')
            else (case spec_walk data
                         (p + 8 + nat (u32le (rd data (p + 4)) (rd data (p + 5)) (rd data (p + 6))
                                         (rd data (p + 7)))
                            + nat (u32le (rd data (p + 4)) (rd data (p + 5)) (rd data (p + 6))
                                     (rd data (p + 7))) mod 2)
                         end0 of
                    Inl e \<Rightarrow> Inl e
                  | Inr cs \<Rightarrow>
                      Inr (\<lparr>chunk_type = fromCharCode (subarray data (int p) (int p + 4)),
                            chunk_size = nat (u32le (rd data (p + 4)) (rd data (p + 5))
                                                (rd data (p + 6)) (rd data (p + 7))),
                            chunk_offset = p + 8\<rparr> # cs)))
      else Inr [])"
  by pat_completeness auto
termination
  by (relation "measure (\<lambda>(data, p, end0). end0 - p)") auto

text \<open>Modelled from the spec: the missing function \<open>parseRiff\<close>, given a start
  offset and a byte length; the options are not used.\<close>

definition spec_parseRiff ::
  "byte list \<Rightarrow> nat \<Rightarrow> int \<Rightarrow> unit option \<Rightarrow> js_error + chunk list" where
  "spec_parseRiff data index0 length0 opt = spec_walk data index0 (index0 + nat length0)"

text \<open>Modelled from the spec: the missing imports of the module taken together, with no
  entry in the missing \<open>InfoNameTable\<close>; bags are the objects and generator and
  modulator records the records of the legacy class.\<close>

definition spec_externals :: "(unit, js_object, js_object, gen_record, gen_record) externals" where
  "spec_externals =
     \<lparr>parseRiff = spec_parseRiff,
      Stream_readString = spec_Stream_readString,
      readString = spec_readString,
      InfoNameTable = Map.empty,
      PresetHeader_parse = spec_fixed_record 38 spec_PresetHeader,
      PresetBag_parse = spec_fixed_record 4 parsePbag_record,
      Instrument_parse = spec_fixed_record 22 spec_Instrument,
      InstrumentBag_parse = spec_fixed_record 4 parseIbag_record,
      ModulatorList_parse = spec_fixed_record 10 parseModulator_record,
      GeneratorList_parse = spec_fixed_record 4 parseGenerator_record,
      SampleHeader_parse = spec_fixed_record 46 spec_SampleHeader\<rparr>"

section \<open>Auxiliary notions for the statements\<close>

text \<open>The byte a bitwise operator sees: \<open>undefined\<close> counts as 0.\<close>

definition byte0 :: "byte option \<Rightarrow> byte" where
  "byte0 b = (case b of None \<Rightarrow> 0 | Some w \<Rightarrow> w)"

text \<open>A factory advances when every record it returns leaves the stream further on.\<close>

definition advances :: "(Stream \<Rightarrow> js_error + 'a \<times> Stream) \<Rightarrow> bool" where
  "advances factory = (\<forall>s x s'. factory s = Inr (x, s') \<longrightarrow> stream_ip s < stream_ip s')"

definition factories_advance :: "('o, 'pb, 'ib, 'ml, 'gl) externals \<Rightarrow> bool" where
  "factories_advance ext =
     (advances (PresetHeader_parse ext) \<and> advances (PresetBag_parse ext) \<and>
      advances (Instrument_parse ext) \<and> advances (InstrumentBag_parse ext) \<and>
      advances (ModulatorList_parse ext) \<and> advances (GeneratorList_parse ext) \<and>
      advances (SampleHeader_parse ext))"

section \<open>Example inputs\<close>

definition example_ibag :: "byte list" where
  "example_ibag = [0, 0, 0, 0, 2, 0, 1, 0]"

definition example_imod :: "byte list" where
  "example_imod = [0, 0, 5, 0, 7, 0, 0, 0, 0, 0]"

definition example_igen :: "byte list" where
  "example_igen = [61, 0, 1, 2, 62, 0, 3, 4]"

definition example_Parser :: Parser where
  "example_Parser =
     \<lparr>this_presetHeader = [], this_presetZone = [], this_presetZoneModulator = [],
      this_presetZoneGenerator = [],
      this_instrument = [\<lparr>instrumentName = ''a'', instrumentBagIndex = 0\<rparr>,
                         \<lparr>instrumentName = ''EOI'', instrumentBagIndex = 1\<rparr>],
      this_instrumentZone =
        parseBag_loop parseIbag_record example_ibag 8 0 [],
      this_instrumentZoneModulator =
        parseModulator example_imod \<lparr>chunk_type = ''imod'', chunk_size = 10, chunk_offset = 0\<rparr>,
      this_instrumentZoneGenerator =
        parseGenerator example_igen \<lparr>chunk_type = ''igen'', chunk_size = 8, chunk_offset = 0\<rparr>\<rparr>"



definition example_smpl :: "byte list" where
  "example_smpl = [1, 0, 2, 0, 3, 0]"

text \<open>A sound bank whose \<open>phdr\<close> chunk holds the single record \<open>EOP\<close> and whose
  other chunks are empty, and a file with two chunks under \<open>sfbk\<close>.\<close>

definition example_sf2 :: "byte list" where
  "example_sf2 = [
      82, 73, 70, 70, 158, 0, 0, 0, 115, 102, 98, 107, 76, 73, 83, 84,
      4, 0, 0, 0, 73, 78, 70, 79, 76, 73, 83, 84, 12, 0, 0, 0,
      115, 100, 116, 97, 115, 109, 112, 108, 0, 0, 0, 0, 76, 73, 83, 84,
      114, 0, 0, 0, 112, 100, 116, 97, 112, 104, 100, 114, 38, 0, 0, 0,
      69, 79, 80, 0, 0, 0, 0, 0, 0, 0, 0, 0, 0, 0, 0, 0,
      0, 0, 0, 0, 0, 0, 0, 0, 0, 0, 0, 0, 0, 0, 0, 0,
      0, 0, 0, 0, 0, 0, 112, 98, 97, 103, 0, 0, 0, 0, 112, 109,
      111, 100, 0, 0, 0, 0, 112, 103, 101, 110, 0, 0, 0, 0, 105, 110,
      115, 116, 0, 0, 0, 0, 105, 98, 97, 103, 0, 0, 0, 0, 105, 109,
      111, 100, 0, 0, 0, 0, 105, 103, 101, 110, 0, 0, 0, 0, 115, 104,
      100, 114, 0, 0, 0, 0]"

definition example_two_chunks :: "byte list" where
  "example_two_chunks = [
      82, 73, 70, 70, 28, 0, 0, 0, 115, 102, 98, 107, 76, 73, 83, 84,
      4, 0, 0, 0, 73, 78, 70, 79, 76, 73, 83, 84, 4, 0, 0, 0,
      115, 100, 116, 97]"



section \<open>Bytes and 16-bit values\<close>

lemma or_shift_is_cat:
  "(ucast (a::byte) :: 32 word) OR push_bit 8 (ucast (b::byte)) = ucast (word_cat b a :: 16 word)"
  by (rule bit_word_eqI) (auto simp: bit_simps dest: bit_imp_le_length)

lemma or_shift_sign_is_cat: "(ucast (a::byte) :: 32 word) OR signed_drop_bit 16 (push_bit 16 (push_bit 8 (ucast (b::byte)))) = scast (word_cat b a :: 16 word)"
  by (rule bit_word_eqI) (auto simp: bit_simps dest: bit_imp_le_length)

lemma sint_ucast_16_32: "sint (ucast (x::16 word) :: 32 word) = uint x"
proof -
  have "uint x < 2 ^ 16" using uint_bounded[of x] by simp
  then have b: "uint x < 2 ^ 31" by simp
  have "(- (2 ^ 31) :: int) \<le> 0" by simp
  then have c: "- (2 ^ 31) \<le> uint x" by (rule order_trans) simp
  have "uint (ucast x :: 32 word) = uint x" by (simp add: uint_up_ucast is_up)
  then show ?thesis using b c by (simp add: sint_uint signed_take_bit_int_eq_self)
qed

lemma sint_scast_16_32: "sint (scast (x::16 word) :: 32 word) = sint x"
  by (simp add: sint_up_scast is_up)

lemma ToInt32_byte0: "ToInt32 b = ucast (byte0 b)"
  by (cases b) (simp_all add: ToInt32_def byte0_def)

lemma u16le_eq: "u16le b0 b1 = uint (word_cat (byte0 b1) (byte0 b0) :: 16 word)"
  by (simp add: u16le_def ToInt32_byte0 or_shift_is_cat sint_ucast_16_32)

lemma s16le_eq: "s16le b0 b1 = sint (word_cat (byte0 b1) (byte0 b0) :: 16 word)"
  unfolding s16le_def ToInt32_byte0 or_shift_sign_is_cat by (rule sint_scast_16_32)

lemma u16le_range: "0 \<le> u16le b0 b1 \<and> u16le b0 b1 < 65536"
  using uint_bounded[of "word_cat (byte0 b1) (byte0 b0) :: 16 word"] by (simp add: u16le_eq)

lemma s16le_range: "- 32768 \<le> s16le b0 b1 \<and> s16le b0 b1 < 32768"
  using sint_range_size[of "word_cat (byte0 b1) (byte0 b0) :: 16 word"] by (simp add: s16le_eq word_size)

lemma table_known:
  assumes "0 \<le> c" "c < 60" "c \<notin> {14,18,19,20,42,49,55}"
  shows "\<exists>k. js_index GeneratorEnumeratorTable c = Some k \<and> k \<noteq> ''unknown''"
proof -
  from assms have "c \<in> set [0..59]" by simp
  then show ?thesis using assms(3) unfolding js_index_def GeneratorEnumeratorTable_def
    by (simp add: upto.simps) (elim disjE; simp)
qed

lemma table_unknown:
  assumes "\<not> (0 \<le> c \<and> c < 60 \<and> c \<notin> {14,18,19,20,42,49,55})"
  shows "js_index GeneratorEnumeratorTable c = None"
proof (cases "0 \<le> c \<and> c < 60")
  case True
  then have "c \<in> {14,18,19,20,42,49,55}" using assms by blast
  then show ?thesis unfolding js_index_def GeneratorEnumeratorTable_def
    by (elim insertE; simp)
next
  case False
  then show ?thesis by (auto simp: js_index_def GeneratorEnumeratorTable_def)
qed

lemma table_never_unknown: "js_index GeneratorEnumeratorTable c \<noteq> Some ''unknown''"
proof (cases "0 \<le> c \<and> c < 60 \<and> c \<notin> {14,18,19,20,42,49,55}")
  case True
  then show ?thesis using table_known[of c] by auto
next
  case False
  then show ?thesis using table_unknown[of c] by simp
qed

section \<open>Generator decoding\<close>

text \<open>
  Claim C1, as amended. Generator decoding is total over every 2-byte code: the code read
  from two bytes lies in 0..65535; each code in 0..59 other than the holes of the table,
  which are 14, 18, 19, 20, 42, 49 and 55, decodes to its table name (never the name
  \<open>unknown\<close>) with the value \<open>{lo, hi}\<close> for keyRange, velRange, keynum and
  velocity and a signed 16-bit \<open>{amount}\<close> for every other name; every other code
  (the holes and all codes from 60 on) decodes to the raw value
  \<open>{code, amount, lo, hi}\<close> with the amount a signed 16-bit number.
\<close>

theorem generator_decode_total:
  "(let code = u16le (rd data ip) (rd data (ip + 1));
        lo = rd data (ip + 2); hi = rd data (ip + 3);
        r = parseGenerator_record data ip
    in 0 \<le> code \<and> code < 65536 \<and> - 32768 \<le> s16le lo hi \<and> s16le lo hi < 32768 \<and>
       (code < 60 \<and> code \<notin> {14, 18, 19, 20, 42, 49, 55} \<longrightarrow>
          (\<exists>k. js_index GeneratorEnumeratorTable code = Some k \<and> k \<noteq> ''unknown'' \<and>
               gtype r = Some k \<and>
               gvalue r = (if k \<in> {''keyRange'', ''velRange'', ''keynum'', ''velocity''}
                           then RangeV lo hi else AmountV (s16le lo hi)))) \<and>
       (\<not> (code < 60 \<and> code \<notin> {14, 18, 19, 20, 42, 49, 55}) \<longrightarrow>
          gvalue r = RawV code (s16le lo hi) lo hi))"
proof -
  define code where "code = u16le (rd data ip) (rd data (ip + 1))"
  define lo where "lo = rd data (ip + 2)"
  define hi where "hi = rd data (ip + 3)"
  have range: "0 \<le> code \<and> code < 65536" unfolding code_def by (rule u16le_range)
  have rec: "parseGenerator_record data ip =
     (case js_index GeneratorEnumeratorTable code of
        None \<Rightarrow> \<lparr>gtype = None, gvalue = RawV code (s16le lo hi) lo hi\<rparr>
      | Some k \<Rightarrow>
          if k = ''keynum'' \<or> k = ''keyRange'' \<or> k = ''velRange'' \<or> k = ''velocity''
          then \<lparr>gtype = Some k, gvalue = RangeV lo hi\<rparr>
          else \<lparr>gtype = Some k, gvalue = AmountV (s16le lo hi)\<rparr>)"
    unfolding parseGenerator_record_def Let_def code_def lo_def hi_def
    by (simp split: option.split)
  have known: "\<exists>k. js_index GeneratorEnumeratorTable code = Some k \<and> k \<noteq> ''unknown'' \<and>
               gtype (parseGenerator_record data ip) = Some k \<and>
               gvalue (parseGenerator_record data ip) =
                 (if k \<in> {''keyRange'', ''velRange'', ''keynum'', ''velocity''}
                  then RangeV lo hi else AmountV (s16le lo hi))"
    if "code < 60 \<and> code \<notin> {14, 18, 19, 20, 42, 49, 55}"
  proof -
    from that range obtain k where k: "js_index GeneratorEnumeratorTable code = Some k" "k \<noteq> ''unknown''"
      using table_known[of code] by blast
    then show ?thesis
      by (auto simp: rec)
  qed
  have unknown: "gvalue (parseGenerator_record data ip) = RawV code (s16le lo hi) lo hi"
    if "\<not> (code < 60 \<and> code \<notin> {14, 18, 19, 20, 42, 49, 55})"
  proof -
    from that have "\<not> (0 \<le> code \<and> code < 60 \<and> code \<notin> {14, 18, 19, 20, 42, 49, 55})"
      by simp
    then have "js_index GeneratorEnumeratorTable code = None"
      by (rule table_unknown)
    then show ?thesis
      by (simp add: rec)
  qed
  show ?thesis
    unfolding Let_def code_def[symmetric] lo_def[symmetric] hi_def[symmetric]
    using range s16le_range[of lo hi] known unknown by blast
qed

theorem generator_decode_total_witness:
  "u16le (rd [5, 0, 255, 255] 0) (rd [5, 0, 255, 255] (0 + 1)) = 5 \<and> (5::int) < 60 \<and>
   (5::int) \<notin> {14, 18, 19, 20, 42, 49, 55} \<and>
   gtype (parseGenerator_record [5, 0, 255, 255] 0) = Some ''modLfoToPitch'' \<and>
   gvalue (parseGenerator_record [5, 0, 255, 255] 0) = AmountV (- 1)"
  using generator_decode_total[of "[5, 0, 255, 255]" 0]
  by (simp add: Let_def rd_def u16le_def s16le_def ToInt32_def js_index_def GeneratorEnumeratorTable_def parseGenerator_record_def)

text \<open>
  Claim C1 as stated lists 43 among the unassigned codes and 42 among the assigned ones.
  The table has its hole at 42 and holds keyRange at 43.
\<close>

theorem generator_gap_counterexample:
  "gtype (parseGenerator_record [43, 0, 1, 2] 0) = Some ''keyRange'' \<and>
   gvalue (parseGenerator_record [43, 0, 1, 2] 0) = RangeV (Some 1) (Some 2) \<and>
   gtype (parseGenerator_record [42, 0, 1, 2] 0) = None \<and>
   gvalue (parseGenerator_record [42, 0, 1, 2] 0) = RawV 42 513 (Some 1) (Some 2)"
  by (simp add: Let_def rd_def u16le_def s16le_def ToInt32_def js_index_def GeneratorEnumeratorTable_def parseGenerator_record_def)

text \<open>
  Claim C6. The record decoded from code 61 with amount bytes 0x01, 0x02 has the value
  \<open>{code: 61, amount: 513, lo: 1, hi: 2}\<close>, but its \<open>type\<close> is the table entry,
  which is \<open>undefined\<close>, and not the string \<open>unknown\<close>.
\<close>

theorem unknown_code_61_has_no_type:
  "parseGenerator [61, 0, 1, 2] \<lparr>chunk_type = ''pgen'', chunk_size = 4, chunk_offset = 0\<rparr> =
     [\<lparr>gtype = None, gvalue = RawV 61 513 (Some 1) (Some 2)\<rparr>] \<and>
   gtype (parseGenerator_record [61, 0, 1, 2] 0) \<noteq> Some ''unknown''"
  by (simp add: parseGenerator_def Let_def rd_def u16le_def s16le_def ToInt32_def js_index_def GeneratorEnumeratorTable_def parseGenerator_record_def)

section \<open>Merging the records of a zone\<close>

lemma parseGenerator_record_type: "gtype (parseGenerator_record data p) \<noteq> Some ''unknown''"
  using table_never_unknown[of "u16le (rd data p) (rd data (p + 1))"]
  by (auto simp: parseGenerator_record_def Let_def split: option.splits)

lemma parseModulator_record_type: "gtype (parseModulator_record data p) \<noteq> Some ''unknown''"
  using table_never_unknown[of "u16le (rd data (p + 2)) (rd data (p + 3))"]
  by (auto simp: parseModulator_record_def Let_def split: option.splits)

lemma parseGenerator_loop_types:
  "\<forall>r\<in>set acc. gtype r \<noteq> Some ''unknown'' \<Longrightarrow>
   \<forall>r\<in>set (parseGenerator_loop data size0 p acc). gtype r \<noteq> Some ''unknown''"
proof (induction data size0 p acc rule: parseGenerator_loop.induct)
  case (1 data size0 p acc)
  show ?case
  proof (cases "p < size0")
    case True
    have "\<forall>r\<in>set (acc @ [parseGenerator_record data p]). gtype r \<noteq> Some ''unknown''"
      using "1.prems" parseGenerator_record_type by auto
    from "1.IH"[OF True this] True show ?thesis by simp
  next
    case False
    with "1.prems" show ?thesis by simp
  qed
qed

lemma parseModulator_loop_types:
  "\<forall>r\<in>set acc. gtype r \<noteq> Some ''unknown'' \<Longrightarrow>
   \<forall>r\<in>set (parseModulator_loop data size0 p acc). gtype r \<noteq> Some ''unknown''"
proof (induction data size0 p acc rule: parseModulator_loop.induct)
  case (1 data size0 p acc)
  show ?case
  proof (cases "p < size0")
    case True
    have "\<forall>r\<in>set (acc @ [parseModulator_record data p]). gtype r \<noteq> Some ''unknown''"
      using "1.prems" parseModulator_record_type by auto
    from "1.IH"[OF True this] True show ?thesis by simp
  next
    case False
    with "1.prems" show ?thesis by simp
  qed
qed

lemma createBagModGen_step_unknown:
  assumes "\<forall>r\<in>set recs. gtype r \<noteq> Some ''unknown''"
    and "createBagModGen_step recs st i = Inr st'"
  shows "modgen st' ''unknown'' = modgen st ''unknown''"
proof -
  from assms(2) obtain info0 where i: "js_at recs i = Some info0"
    by (auto simp: createBagModGen_step_def split: option.splits)
  then have "info0 \<in> set recs" by (auto simp: js_at_def split: if_splits)
  with assms(1) have t: "gtype info0 \<noteq> Some ''unknown''" by blast
  then have "propertyKey (gtype info0) \<noteq> ''unknown''"
    by (cases "gtype info0") (auto simp: propertyKey_def)
  with assms(2) i t show ?thesis
    by (auto simp: createBagModGen_step_def)
qed

lemma createBagModGen_loop_unknown:
  "\<forall>r\<in>set recs. gtype r \<noteq> Some ''unknown'' \<Longrightarrow>
   createBagModGen_loop recs idx st = Inr st' \<Longrightarrow>
   modgen st' ''unknown'' = modgen st ''unknown''"
proof (induction idx arbitrary: st)
  case Nil
  then show ?case by simp
next
  case (Cons i idx)
  from Cons.prems(2) obtain st1 where s: "createBagModGen_step recs st i = Inr st1"
    and l: "createBagModGen_loop recs idx st1 = Inr st'"
    by (auto split: sum.splits)
  from Cons.IH[OF Cons.prems(1) l] createBagModGen_step_unknown[OF Cons.prems(1) s]
  show ?case by simp
qed

text \<open>
  Claim C4. The claim says that the records of unknown type of a zone accumulate in the
  list \<open>unknown\<close> of the merged map. No record that \<open>parseGenerator\<close> or
  \<open>parseModulator\<close> produces has the type \<open>unknown\<close> (an unassigned code gives
  the type \<open>undefined\<close>), so for every zone the list \<open>unknown\<close> is empty; the
  records of unassigned codes are stored under the key \<open>undefined\<close>, each one
  overwriting the one before, as the evaluation on two such records shows.
\<close>

theorem unknown_list_stays_empty:
  "recs = parseGenerator data c \<or> recs = parseModulator data c \<Longrightarrow>
   createBagModGen zone indexStart indexEnd recs = Inr r \<Longrightarrow>
   modgen r ''unknown'' = Some (UnknownList [])"
proof -
  assume src: "recs = parseGenerator data c \<or> recs = parseModulator data c"
    and a: "createBagModGen zone indexStart indexEnd recs = Inr r"
  have g: "\<forall>x\<in>set (parseGenerator data c). gtype x \<noteq> Some ''unknown''"
    unfolding parseGenerator_def by (rule parseGenerator_loop_types) simp
  have m: "\<forall>x\<in>set (parseModulator data c). gtype x \<noteq> Some ''unknown''"
    unfolding parseModulator_def by (rule parseModulator_loop_types) simp
  from src g m have "\<forall>x\<in>set recs. gtype x \<noteq> Some ''unknown''" by blast
  from createBagModGen_loop_unknown[OF this a[unfolded createBagModGen_def]]
  show ?thesis by (simp add: modgen_init_def)
qed

lemma ev_igen: "parseGenerator example_igen \<lparr>chunk_type = ''igen'', chunk_size = 8, chunk_offset = 0\<rparr> =
      [\<lparr>gtype = None, gvalue = RawV 61 513 (Some 1) (Some 2)\<rparr>,
       \<lparr>gtype = None, gvalue = RawV 62 1027 (Some 3) (Some 4)\<rparr>]"
  by (simp add: example_igen_def parseGenerator_def Let_def rd_def u16le_def s16le_def ToInt32_def js_index_def GeneratorEnumeratorTable_def parseGenerator_record_def)

theorem unknown_list_stays_empty_witness:
  "createBagModGen [] (Some 0) (Some 2)
     (parseGenerator example_igen \<lparr>chunk_type = ''igen'', chunk_size = 8, chunk_offset = 0\<rparr>) =
   Inr \<lparr>modgen = modgen_init(''undefined'' \<mapsto> Entry (RawV 62 1027 (Some 3) (Some 4))),
        modgenInfo = [\<lparr>gtype = None, gvalue = RawV 61 513 (Some 1) (Some 2)\<rparr>,
                      \<lparr>gtype = None, gvalue = RawV 62 1027 (Some 3) (Some 4)\<rparr>]\<rparr> \<and>
   (modgen_init(''undefined'' \<mapsto> Entry (RawV 62 1027 (Some 3) (Some 4)))) ''unknown'' =
     Some (UnknownList [])"
proof -
  have e: "createBagModGen [] (Some 0) (Some 2)
     (parseGenerator example_igen \<lparr>chunk_type = ''igen'', chunk_size = 8, chunk_offset = 0\<rparr>) =
   Inr \<lparr>modgen = modgen_init(''undefined'' \<mapsto> Entry (RawV 62 1027 (Some 3) (Some 4))),
        modgenInfo = [\<lparr>gtype = None, gvalue = RawV 61 513 (Some 1) (Some 2)\<rparr>,
                      \<lparr>gtype = None, gvalue = RawV 62 1027 (Some 3) (Some 4)\<rparr>]\<rparr>"
    by (simp add: ev_igen createBagModGen_def for_range_def js_less_def createBagModGen_step_def js_at_def propertyKey_def upt_rec)
  from unknown_list_stays_empty[OF disjI1[OF refl] e] e show ?thesis by simp
qed


text \<open>
  Claim C5, as amended. For every zone whose generator index range is empty, the resolved
  generator map is exactly the map the merge starts from, which has two keys:
  \<open>unknown\<close> with the empty list and \<open>keyRange\<close> with \<open>{lo: 0, hi: 127}\<close>.
\<close>

theorem empty_zone_generator_map:
  "b \<le> a \<Longrightarrow>
   createBagModGen zone (Some a) (Some b) zoneModGen =
     Inr \<lparr>modgen = [''unknown'' \<mapsto> UnknownList [],
                    ''keyRange'' \<mapsto> Entry (RangeV (Some 0) (Some 127))],
          modgenInfo = []\<rparr> \<and>
   dom [''unknown'' \<mapsto> UnknownList [], ''keyRange'' \<mapsto> Entry (RangeV (Some 0) (Some 127))] =
     {''unknown'', ''keyRange''}"
  by (auto simp: createBagModGen_def for_range_def js_less_def modgen_init_def)

theorem empty_zone_generator_map_witness:
  "(2::nat) \<le> 2 \<and>
   createPresetGenerator
     (example_Parser\<lparr>this_presetZoneGenerator := this_instrumentZoneGenerator example_Parser\<rparr>)
     [[''presetGeneratorIndex'' \<mapsto> 2, ''presetModulatorIndex'' \<mapsto> 0]] 0 =
     Inr \<lparr>modgen = [''unknown'' \<mapsto> UnknownList [],
                    ''keyRange'' \<mapsto> Entry (RangeV (Some 0) (Some 127))],
          modgenInfo = []\<rparr>"
proof -
  have l: "length (this_instrumentZoneGenerator example_Parser) = 2"
    by (simp add: example_Parser_def ev_igen)
  have e: "createPresetGenerator
     (example_Parser\<lparr>this_presetZoneGenerator := this_instrumentZoneGenerator example_Parser\<rparr>)
     [[''presetGeneratorIndex'' \<mapsto> 2, ''presetModulatorIndex'' \<mapsto> 0]] 0 =
     createBagModGen [[''presetGeneratorIndex'' \<mapsto> 2, ''presetModulatorIndex'' \<mapsto> 0]]
       (Some 2) (Some 2) (this_instrumentZoneGenerator example_Parser)"
    by (simp add: createPresetGenerator_def js_at_def l)
  from empty_zone_generator_map[of 2 2
         "[[''presetGeneratorIndex'' \<mapsto> 2, ''presetModulatorIndex'' \<mapsto> 0]]"
         "this_instrumentZoneGenerator example_Parser"] e
  show ?thesis by simp
qed

text \<open>
  Claim C5 as stated says the map holds \<open>keyRange\<close> and nothing more; it also holds
  the key \<open>unknown\<close>.
\<close>

theorem empty_zone_map_counterexample:
  "createBagModGen [] (Some 0) (Some 0) [] = Inr \<lparr>modgen = modgen_init, modgenInfo = []\<rparr> \<and>
   modgen_init ''unknown'' = Some (UnknownList []) \<and>
   modgen_init \<noteq> [''keyRange'' \<mapsto> Entry (RangeV (Some 0) (Some 127))]"
proof -
  have "modgen_init ''unknown'' \<noteq> [''keyRange'' \<mapsto> Entry (RangeV (Some 0) (Some 127))] ''unknown''"
    by (simp add: modgen_init_def)
  then have "modgen_init \<noteq> [''keyRange'' \<mapsto> Entry (RangeV (Some 0) (Some 127))]"
    by metis
  then show ?thesis
    by (simp add: createBagModGen_def for_range_def js_less_def modgen_init_def)
qed

section \<open>The modulators of instrument zones\<close>

lemma parseIbag_record_keys: "parseIbag_record data p ''presetModulatorIndex'' = None"
  by (simp add: parseIbag_record_def)

lemma parseIbag_loop_keys:
  "\<forall>z\<in>set acc. z ''presetModulatorIndex'' = None \<Longrightarrow>
   \<forall>z\<in>set (parseBag_loop parseIbag_record data size0 p acc). z ''presetModulatorIndex'' = None"
proof (induction parseIbag_record data size0 p acc rule: parseBag_loop.induct)
  case (1 data size0 p acc)
  show ?case
  proof (cases "p < size0")
    case True
    have "\<forall>z\<in>set (acc @ [parseIbag_record data p]). z ''presetModulatorIndex'' = None"
      using "1.prems" parseIbag_record_keys by auto
    from "1.hyps"[OF True this] True show ?thesis by simp
  next
    case False
    with "1.prems" show ?thesis by simp
  qed
qed

lemma createInstrumentModulator_default:
  assumes "\<forall>z\<in>set zone. z ''presetModulatorIndex'' = None"
    and "createInstrumentModulator this zone j = Inr r"
  shows "r = \<lparr>modgen = modgen_init, modgenInfo = []\<rparr>"
proof -
  from assms(2) obtain z where z: "js_at zone j = Some z"
    by (auto simp: createInstrumentModulator_def split: option.splits)
  then have "z \<in> set zone" by (auto simp: js_at_def split: if_splits)
  with assms(1) have "z ''presetModulatorIndex'' = None" by blast
  with assms(2) z show ?thesis
    by (simp add: createInstrumentModulator_def createBagModGen_def for_range_def js_less_def)
qed

lemma createInstrument_zones_default:
  "\<forall>z\<in>set zone. z ''presetModulatorIndex'' = None \<Longrightarrow>
   \<forall>zi\<in>set acc. modulator zi = modgen_init \<and> modulatorSequence zi = [] \<Longrightarrow>
   createInstrument_zones this zone js acc = Inr zs \<Longrightarrow>
   \<forall>zi\<in>set zs. modulator zi = modgen_init \<and> modulatorSequence zi = []"
proof (induction js arbitrary: acc)
  case Nil
  then show ?case by simp
next
  case (Cons j js)
  from Cons.prems(3) obtain g m where
    g: "createInstrumentGenerator this zone j = Inr g" and
    m: "createInstrumentModulator this zone j = Inr m" and
    rest: "createInstrument_zones this zone js
             (acc @ [\<lparr>generator = modgen g, generatorSequence = modgenInfo g,
                      modulator = modgen m, modulatorSequence = modgenInfo m\<rparr>]) = Inr zs"
    by (auto split: sum.splits)
  from createInstrumentModulator_default[OF Cons.prems(1) m]
  have "modgen m = modgen_init" "modgenInfo m = []" by simp_all
  with Cons.prems(2) have
    "\<forall>zi\<in>set (acc @ [\<lparr>generator = modgen g, generatorSequence = modgenInfo g,
                      modulator = modgen m, modulatorSequence = modgenInfo m\<rparr>]).
        modulator zi = modgen_init \<and> modulatorSequence zi = []"
    by simp
  from Cons.IH[OF Cons.prems(1) this rest] show ?case .
qed

lemma createInstrument_loop_default:
  "\<forall>z\<in>set (this_instrumentZone this). z ''presetModulatorIndex'' = None \<Longrightarrow>
   \<forall>ins\<in>set acc. \<forall>zi\<in>set (inst_info ins). modulator zi = modgen_init \<and> modulatorSequence zi = [] \<Longrightarrow>
   createInstrument_loop this idx acc = Inr out \<Longrightarrow>
   \<forall>ins\<in>set out. \<forall>zi\<in>set (inst_info ins). modulator zi = modgen_init \<and> modulatorSequence zi = []"
proof (induction idx arbitrary: acc)
  case Nil
  then show ?case by simp
next
  case (Cons i idx)
  define bagIndexEnd where "bagIndexEnd =
    (case js_at (this_instrument this) (i + 1) of
       Some nxt \<Rightarrow> instrumentBagIndex nxt | None \<Rightarrow> length (this_instrumentZone this))"
  define bagIndex where "bagIndex = instrumentBagIndex (this_instrument this ! i)"
  from Cons.prems(3) obtain zs where
    zs: "createInstrument_zones this (this_instrumentZone this) [bagIndex ..< bagIndexEnd] [] = Inr zs"
    and rest: "createInstrument_loop this idx
                 (acc @ [\<lparr>name = instrumentName (this_instrument this ! i), inst_info = zs\<rparr>]) = Inr out"
    by (auto simp: Let_def bagIndex_def bagIndexEnd_def split: sum.splits)
  have "\<forall>zi\<in>set zs. modulator zi = modgen_init \<and> modulatorSequence zi = []"
    by (rule createInstrument_zones_default[OF Cons.prems(1) _ zs]) simp
  with Cons.prems(2) have
    "\<forall>ins\<in>set (acc @ [\<lparr>name = instrumentName (this_instrument this ! i), inst_info = zs\<rparr>]).
       \<forall>zi\<in>set (inst_info ins). modulator zi = modgen_init \<and> modulatorSequence zi = []"
    by simp
  from Cons.IH[OF Cons.prems(1) this rest] show ?case .
qed

text \<open>
  Claim C10. \<open>createInstrumentModulator_\<close> reads the start of the modulator range
  from the property \<open>presetModulatorIndex\<close>, which no object built by
  \<open>parseIbag\<close> has. So for every instrument that \<open>createInstrument\<close> returns,
  every zone has the initial map as its modulator map and an empty modulator sequence,
  whatever the modulator records are.
\<close>

theorem instrument_modulator_always_default:
  "Parser_parseIbag data c = Inr (this_instrumentZone this) \<Longrightarrow>
   createInstrument this = Inr output \<Longrightarrow>
   \<forall>ins\<in>set output. \<forall>z\<in>set (inst_info ins).
      modulator z = modgen_init \<and> modulatorSequence z = []"
proof -
  assume p: "Parser_parseIbag data c = Inr (this_instrumentZone this)"
    and o: "createInstrument this = Inr output"
  from p have "this_instrumentZone this =
      parseBag_loop parseIbag_record data (chunk_offset c + chunk_size c) (chunk_offset c) []"
    by (cases "chunk_type c = ''ibag''") (simp_all add: Parser_parseIbag_def del: parseBag_loop.simps)
  then have k: "\<forall>z\<in>set (this_instrumentZone this). z ''presetModulatorIndex'' = None"
    using parseIbag_loop_keys[of "[]" data "chunk_offset c + chunk_size c" "chunk_offset c"]
    by (simp del: parseBag_loop.simps)
  show ?thesis
    by (rule createInstrument_loop_default[OF k _ o[unfolded createInstrument_def]]) simp
qed

lemma ev_ibag: "parseBag_loop parseIbag_record example_ibag 8 0 [] =
   [[''instrumentGeneratorIndex'' \<mapsto> 0, ''instrumentModulatorIndex'' \<mapsto> 0],
    [''instrumentGeneratorIndex'' \<mapsto> 2, ''instrumentModulatorIndex'' \<mapsto> 1]]"
  by (simp add: example_ibag_def parseIbag_record_def rd_def u16le_def ToInt32_def)

lemma ev_imod: "parseModulator example_imod \<lparr>chunk_type = ''imod'', chunk_size = 10, chunk_offset = 0\<rparr> =
   [\<lparr>gtype = Some ''modLfoToPitch'', gvalue = AmountV 7\<rparr>]"
  by (simp add: example_imod_def parseModulator_def Let_def rd_def u16le_def s16le_def ToInt32_def js_index_def GeneratorEnumeratorTable_def parseModulator_record_def)


lemma ev_zone: "this_instrumentZone example_Parser =
   [[''instrumentGeneratorIndex'' \<mapsto> 0, ''instrumentModulatorIndex'' \<mapsto> 0],
    [''instrumentGeneratorIndex'' \<mapsto> 2, ''instrumentModulatorIndex'' \<mapsto> 1]]"
  by (simp add: example_Parser_def ev_ibag del: parseBag_loop.simps)

lemma ev_gens: "this_instrumentZoneGenerator example_Parser =
      [\<lparr>gtype = None, gvalue = RawV 61 513 (Some 1) (Some 2)\<rparr>,
       \<lparr>gtype = None, gvalue = RawV 62 1027 (Some 3) (Some 4)\<rparr>]"
  by (simp add: example_Parser_def ev_igen)

lemma ev_mods: "this_instrumentZoneModulator example_Parser =
   [\<lparr>gtype = Some ''modLfoToPitch'', gvalue = AmountV 7\<rparr>]"
  by (simp add: example_Parser_def ev_imod)

lemma ev_insts: "this_instrument example_Parser =
   [\<lparr>instrumentName = ''a'', instrumentBagIndex = 0\<rparr>,
    \<lparr>instrumentName = ''EOI'', instrumentBagIndex = 1\<rparr>]"
  by (simp add: example_Parser_def)

lemma ev_gen0: "createInstrumentGenerator example_Parser (this_instrumentZone example_Parser) 0 =
   Inr \<lparr>modgen = modgen_init(''undefined'' \<mapsto> Entry (RawV 62 1027 (Some 3) (Some 4))),
        modgenInfo = [\<lparr>gtype = None, gvalue = RawV 61 513 (Some 1) (Some 2)\<rparr>,
                      \<lparr>gtype = None, gvalue = RawV 62 1027 (Some 3) (Some 4)\<rparr>]\<rparr>"
  by (simp add: createInstrumentGenerator_def ev_zone ev_gens js_at_def createBagModGen_def
        for_range_def js_less_def createBagModGen_step_def propertyKey_def upt_rec)

lemma ev_gen1: "createInstrumentGenerator example_Parser (this_instrumentZone example_Parser) (Suc 0) =
   Inr \<lparr>modgen = modgen_init, modgenInfo = []\<rparr>"
  by (simp add: createInstrumentGenerator_def ev_zone ev_gens js_at_def createBagModGen_def
        for_range_def js_less_def)

lemma ev_mod0: "createInstrumentModulator example_Parser (this_instrumentZone example_Parser) 0 =
   Inr \<lparr>modgen = modgen_init, modgenInfo = []\<rparr>"
  by (simp add: createInstrumentModulator_def ev_zone ev_mods js_at_def createBagModGen_def
        for_range_def js_less_def)

lemma ev_mod1: "createInstrumentModulator example_Parser (this_instrumentZone example_Parser) (Suc 0) =
   Inr \<lparr>modgen = modgen_init, modgenInfo = []\<rparr>"
  by (simp add: createInstrumentModulator_def ev_zone ev_mods js_at_def createBagModGen_def
        for_range_def js_less_def)


lemma ev_len: "length (this_instrumentZone example_Parser) = 2"
  by (simp add: ev_zone)

lemma ev_createInstrument: "createInstrument example_Parser =
     Inr [\<lparr>name = ''a'',
           inst_info = [\<lparr>generator = modgen_init(''undefined'' \<mapsto> Entry (RawV 62 1027 (Some 3) (Some 4))),
                         generatorSequence = [\<lparr>gtype = None, gvalue = RawV 61 513 (Some 1) (Some 2)\<rparr>,
                                              \<lparr>gtype = None, gvalue = RawV 62 1027 (Some 3) (Some 4)\<rparr>],
                         modulator = modgen_init, modulatorSequence = []\<rparr>]\<rparr>,
          \<lparr>name = ''EOI'',
           inst_info = [\<lparr>generator = modgen_init, generatorSequence = [],
                         modulator = modgen_init, modulatorSequence = []\<rparr>]\<rparr>]"
  by (simp add: createInstrument_def ev_insts ev_len Let_def js_at_def
        ev_gen0 ev_gen1 ev_mod0 ev_mod1 upt_rec)

theorem instrument_modulator_always_default_witness:
  "Parser_parseIbag example_ibag \<lparr>chunk_type = ''ibag'', chunk_size = 8, chunk_offset = 0\<rparr> =
     Inr (this_instrumentZone example_Parser) \<and>
   this_instrumentZoneModulator example_Parser = [\<lparr>gtype = Some ''modLfoToPitch'', gvalue = AmountV 7\<rparr>] \<and>
   map (\<lambda>ins. map (\<lambda>z. (modulator z = modgen_init, modulatorSequence z)) (inst_info ins))
     (projr (createInstrument example_Parser)) = [[(True, [])], [(True, [])]]"
proof -
  have p: "Parser_parseIbag example_ibag \<lparr>chunk_type = ''ibag'', chunk_size = 8, chunk_offset = 0\<rparr> =
     Inr (this_instrumentZone example_Parser)"
    by (simp add: Parser_parseIbag_def example_Parser_def del: parseBag_loop.simps)
  note t = instrument_modulator_always_default[OF p ev_createInstrument]
  from t p ev_mods show ?thesis by (simp add: ev_createInstrument)
qed

section \<open>Doubling of low sample rates\<close>

lemma length_newSample: "length (newSample xs) = 2 * length xs"
  by (induction xs) simp_all

lemma nth_newSample:
  "i < length xs \<Longrightarrow> newSample xs ! (2 * i) = xs ! i \<and> newSample xs ! (2 * i + 1) = xs ! i"
proof (induction xs arbitrary: i)
  case Nil
  then show ?case by simp
next
  case (Cons x xs)
  show ?case
  proof (cases i)
    case 0
    then show ?thesis by simp
  next
    case (Suc k)
    with Cons.prems have "k < length xs" by simp
    from Cons.IH[OF this] Suc show ?thesis by simp
  qed
qed

lemma adjust_loop_returns:
  "0 < rate \<Longrightarrow> \<exists>r. adjustSampleData_loop threshold smp multiply rate = Some r"
proof (induction "nat (threshold - rate)" arbitrary: smp multiply rate rule: less_induct)
  case less
  show ?case
  proof (cases "rate < threshold")
    case True
    with less.prems have "nat (threshold - rate * 2) < nat (threshold - rate)" by simp
    moreover from less.prems have "0 < rate * 2" by simp
    ultimately obtain r where
      "adjustSampleData_loop threshold (newSample smp) (multiply * 2) (rate * 2) = Some r"
      using less.hyps by blast
    with True show ?thesis by (subst adjustSampleData_loop.simps) simp
  next
    case False
    then show ?thesis by (subst adjustSampleData_loop.simps) simp
  qed
qed

lemma adjust_once:
  "threshold \<le> 2 * rate \<Longrightarrow> rate < threshold \<Longrightarrow>
   adjustSampleData_loop threshold smp multiply rate = Some (newSample smp, multiply * 2)"
  by (subst adjustSampleData_loop.simps, subst adjustSampleData_loop.simps) simp

lemma adjust_none:
  "threshold \<le> rate \<Longrightarrow>
   adjustSampleData_loop threshold smp multiply rate = Some (smp, multiply)"
  by (subst adjustSampleData_loop.simps) simp


text \<open>
  Claim C7. With the sample rate 11025 and the threshold 22050 the loop runs once: the
  buffer has twice the length, every sample appears twice in a row, the factor is 2, and
  the callback of \<open>loadSample\<close> stores the rate 22050 and the doubled loop points.
  With a rate at or above the threshold the loop does not run: the factor is 1 and
  buffer, rate and loop points are unchanged.
\<close>

theorem doubling_at_11025:
  "adjustSampleData smp 11025 = Some (newSample smp, 2) \<and>
   Parser_adjustSampleData 22050 smp 11025 = Some (newSample smp, 2) \<and>
   length (newSample smp) = 2 * length smp \<and>
   (\<forall>i. i < length smp \<longrightarrow>
        newSample smp ! (2 * i) = smp ! i \<and> newSample smp ! (2 * i + 1) = smp ! i) \<and>
   (new_Int16Array (subarray data (int offset + start header * 2)
                      (int offset + endSample header * 2)) = Inr smp \<and>
    sampleRate header = 11025 \<longrightarrow>
      loadSample_header offset data header =
        Some (Inr (newSample smp,
                   header\<lparr>sampleRate := 22050, startLoop := startLoop header * 2,
                          endLoop := endLoop header * 2\<rparr>))) \<and>
   (22050 \<le> rate \<longrightarrow>
      adjustSampleData smp rate = Some (smp, 1) \<and>
      Parser_adjustSampleData 22050 smp rate = Some (smp, 1)) \<and>
   (new_Int16Array (subarray data (int offset + start header * 2)
                      (int offset + endSample header * 2)) = Inr smp \<and>
    22050 \<le> sampleRate header \<longrightarrow>
      loadSample_header offset data header = Some (Inr (smp, header)))"
proof -
  have once: "adjustSampleData_loop 22050 smp 1 11025 = Some (newSample smp, 2)"
    using adjust_once[of 22050 11025 smp 1] by simp
  have none: "adjustSampleData_loop 22050 smp 1 rate = Some (smp, 1)" if "22050 \<le> rate" for rate
    using adjust_none[OF that] .
  have a: "adjustSampleData smp 11025 = Some (newSample smp, 2)"
    by (simp add: adjustSampleData_def once)
  have b: "Parser_adjustSampleData 22050 smp 11025 = Some (newSample smp, 2)"
    by (simp add: Parser_adjustSampleData_def once)
  have c: "\<forall>i. i < length smp \<longrightarrow>
        newSample smp ! (2 * i) = smp ! i \<and> newSample smp ! (2 * i + 1) = smp ! i"
    using nth_newSample by blast
  have d: "loadSample_header offset data header =
        Some (Inr (newSample smp,
                   header\<lparr>sampleRate := 22050, startLoop := startLoop header * 2,
                          endLoop := endLoop header * 2\<rparr>))"
    if "new_Int16Array (subarray data (int offset + start header * 2)
                      (int offset + endSample header * 2)) = Inr smp"
       "sampleRate header = 11025"
    using that by (simp add: loadSample_header_def a)
  have e: "adjustSampleData smp rate = Some (smp, 1) \<and>
      Parser_adjustSampleData 22050 smp rate = Some (smp, 1)" if "22050 \<le> rate"
    using none[OF that] by (simp add: adjustSampleData_def Parser_adjustSampleData_def)
  have f: "loadSample_header offset data header = Some (Inr (smp, header))"
    if "new_Int16Array (subarray data (int offset + start header * 2)
                      (int offset + endSample header * 2)) = Inr smp"
       "22050 \<le> sampleRate header"
    using that none[OF that(2)] by (simp add: loadSample_header_def adjustSampleData_def)
  from a b c d e f length_newSample[of smp] show ?thesis by blast
qed

lemma adjust_loop_result:
  "0 < rate \<Longrightarrow>
   \<exists>k. adjustSampleData_loop threshold smp multiply rate =
          Some ((newSample ^^ k) smp, multiply * 2 ^ k) \<and> threshold \<le> rate * 2 ^ k"
proof (induction "nat (threshold - rate)" arbitrary: smp multiply rate rule: less_induct)
  case less
  show ?case
  proof (cases "rate < threshold")
    case True
    with less.prems have "nat (threshold - rate * 2) < nat (threshold - rate)" by simp
    moreover from less.prems have "0 < rate * 2" by simp
    ultimately obtain k where k:
      "adjustSampleData_loop threshold (newSample smp) (multiply * 2) (rate * 2) =
         Some ((newSample ^^ k) (newSample smp), multiply * 2 * 2 ^ k)"
      "threshold \<le> rate * 2 * 2 ^ k"
      using less.hyps by blast
    have "adjustSampleData_loop threshold smp multiply rate =
            Some ((newSample ^^ Suc k) smp, multiply * 2 ^ Suc k)"
      using True k(1) by (subst adjustSampleData_loop.simps) (simp add: funpow_swap1)
    moreover have "threshold \<le> rate * 2 ^ Suc k" using k(2) by simp
    ultimately show ?thesis by blast
  next
    case False
    have "adjustSampleData_loop threshold smp multiply rate =
            Some ((newSample ^^ 0) smp, multiply * 2 ^ 0)"
      using False by (subst adjustSampleData_loop.simps) simp
    moreover have "threshold \<le> rate * 2 ^ 0" using False by simp
    ultimately show ?thesis by blast
  qed
qed











lemma parseShdr_record_returns: "\<exists>r. parseShdr_record thr off data p = Some r"
proof -
  have h: "Parser_adjustSampleData thr s0 rate \<noteq> None" if "0 < rate" for s0 rate
    unfolding Parser_adjustSampleData_def using adjust_loop_returns[OF that, of thr s0 1] by auto
  show ?thesis
    unfolding parseShdr_record_def Let_def
    by (auto simp: h split: sum.splits option.splits)
qed

lemma parseShdr_loop_returns:
  "\<exists>r. parseShdr_loop thr off data size0 p ss0 hs0 = Some r"
proof (induction "size0 - p" arbitrary: p ss0 hs0 rule: less_induct)
  case less
  show ?case
  proof (cases "p < size0")
    case True
    then have d: "size0 - (p + 46) < size0 - p" by simp
    from parseShdr_record_returns obtain r where r: "parseShdr_record thr off data p = Some r"
      by blast
    show ?thesis
    proof (cases r)
      case (Inl e)
      with r True show ?thesis by (subst parseShdr_loop.simps) simp
    next
      case (Inr sh)
      obtain s h where "sh = (s, h)" by (cases sh)
      with Inr r True less.hyps[OF d, of "ss0 @ [s]" "hs0 @ [h]"] show ?thesis
        by (subst parseShdr_loop.simps) simp
    qed
  next
    case False
    then show ?thesis by (subst parseShdr_loop.simps) simp
  qed
qed

lemma Parser_parseShdr_returns: "\<exists>r. Parser_parseShdr thr sd data c = Some r"
  using parseShdr_loop_returns by (simp add: Parser_parseShdr_def)







lemma ev_smpl: "new_Int16Array (subarray example_smpl (int 0 + 0 * 2) (int 0 + 3 * 2)) = Inr [1, 2, 3]"
  by code_simp

theorem doubling_at_11025_witness:
  "loadSample_header 0 example_smpl
     \<lparr>sampleName = ''s'', start = 0, endSample = 3, startLoop = 1, endLoop = 2,
      sampleRate = 11025, originalPitch = Some 60, pitchCorrection = 0, sampleLink = 0,
      sampleType = 1\<rparr> =
   Some (Inr ([1, 1, 2, 2, 3, 3],
     \<lparr>sampleName = ''s'', start = 0, endSample = 3, startLoop = 2, endLoop = 4,
      sampleRate = 22050, originalPitch = Some 60, pitchCorrection = 0, sampleLink = 0,
      sampleType = 1\<rparr>)) \<and>
   loadSample_header 0 example_smpl
     \<lparr>sampleName = ''s'', start = 0, endSample = 3, startLoop = 1, endLoop = 2,
      sampleRate = 22050, originalPitch = Some 60, pitchCorrection = 0, sampleLink = 0,
      sampleType = 1\<rparr> =
   Some (Inr ([1, 2, 3],
     \<lparr>sampleName = ''s'', start = 0, endSample = 3, startLoop = 1, endLoop = 2,
      sampleRate = 22050, originalPitch = Some 60, pitchCorrection = 0, sampleLink = 0,
      sampleType = 1\<rparr>)) \<and>
   newSample [1, 2, 3] ! (2 * 1) = [1, 2, 3 :: 16 word] ! 1"
  using doubling_at_11025[of "[1, 2, 3]" example_smpl 0
          "\<lparr>sampleName = ''s'', start = 0, endSample = 3, startLoop = 1, endLoop = 2,
            sampleRate = 11025, originalPitch = Some 60, pitchCorrection = 0, sampleLink = 0,
            sampleType = 1\<rparr>" 22050]
        doubling_at_11025[of "[1, 2, 3]" example_smpl 0
          "\<lparr>sampleName = ''s'', start = 0, endSample = 3, startLoop = 1, endLoop = 2,
            sampleRate = 22050, originalPitch = Some 60, pitchCorrection = 0, sampleLink = 0,
            sampleType = 1\<rparr>" 22050]
        ev_smpl
  by simp

section \<open>The result of \<open>parse\<close>\<close>



lemma and_then_returns:
  assumes "\<exists>r. m = Some r" and "\<And>x. \<exists>r. f x = Some r"
  shows "\<exists>r. and_then m f = Some r"
proof -
  from assms(1) obtain r where r: "m = Some r" by blast
  show ?thesis
  proof (cases r)
    case (Inl e)
    with r show ?thesis by (simp add: and_then_def)
  next
    case (Inr x)
    with r assms(2)[of x] show ?thesis by (simp add: and_then_def)
  qed
qed








text \<open>
  Claim C8. When the walk of the \<open>sfbk\<close> payload yields a number of chunks other
  than 3, \<open>parseRiffChunk\<close> throws the error \<open>invalid sfbk structure\<close> and
  \<open>parse\<close> ends with that error: there is no result.
\<close>

theorem wrong_chunk_count_fails:
  "parseRiff ext input 0 (int (length input)) (Some option0) = Inr [c] \<Longrightarrow>
   getChunkList ext c input ''RIFF'' ''sfbk'' = Inr chunkList \<Longrightarrow>
   length chunkList \<noteq> 3 \<Longrightarrow>
   parseRiffChunk ext c input = Some (Inl (Error ''invalid sfbk structure'')) \<and>
   parse ext input option0 = Some (Inl (Error ''invalid sfbk structure''))"
  by (simp add: parse_def parseRiffChunk_def and_then_def)






lemma ev_two_riff:
  "parseRiff spec_externals example_two_chunks 0 (int (length example_two_chunks)) (Some ()) =
     Inr [\<lparr>chunk_type = ''RIFF'', chunk_size = 28, chunk_offset = 8\<rparr>]"
  by code_simp

lemma ev_two_list:
  "getChunkList spec_externals \<lparr>chunk_type = ''RIFF'', chunk_size = 28, chunk_offset = 8\<rparr>
     example_two_chunks ''RIFF'' ''sfbk'' =
     Inr [\<lparr>chunk_type = ''LIST'', chunk_size = 4, chunk_offset = 20\<rparr>,
          \<lparr>chunk_type = ''LIST'', chunk_size = 4, chunk_offset = 32\<rparr>]"
  by code_simp

theorem wrong_chunk_count_fails_witness:
  "parseRiff spec_externals example_two_chunks 0 (int (length example_two_chunks)) (Some ()) =
     Inr [\<lparr>chunk_type = ''RIFF'', chunk_size = 28, chunk_offset = 8\<rparr>] \<and>
   getChunkList spec_externals \<lparr>chunk_type = ''RIFF'', chunk_size = 28, chunk_offset = 8\<rparr>
     example_two_chunks ''RIFF'' ''sfbk'' =
     Inr [\<lparr>chunk_type = ''LIST'', chunk_size = 4, chunk_offset = 20\<rparr>,
          \<lparr>chunk_type = ''LIST'', chunk_size = 4, chunk_offset = 32\<rparr>] \<and>
   length [\<lparr>chunk_type = ''LIST'', chunk_size = 4, chunk_offset = 20\<rparr>,
           \<lparr>chunk_type = ''LIST'', chunk_size = 4, chunk_offset = 32\<rparr>] = 2 \<and>
   parse spec_externals example_two_chunks () = Some (Inl (Error ''invalid sfbk structure''))"
proof -
  have "length [\<lparr>chunk_type = ''LIST'', chunk_size = 4, chunk_offset = 20\<rparr>,
                \<lparr>chunk_type = ''LIST'', chunk_size = 4, chunk_offset = 32\<rparr>] \<noteq> 3"
    by simp
  from wrong_chunk_count_fails[OF ev_two_riff ev_two_list this] ev_two_riff ev_two_list
  show ?thesis by simp
qed

section \<open>Termination\<close>

lemma parseChunk_loop_returns:
  "advances factory \<Longrightarrow> \<exists>r. parseChunk_loop factory size0 s acc = Some r"
proof (induction "size0 - stream_ip s" arbitrary: s acc rule: less_induct)
  case less
  show ?case
  proof (cases "stream_ip s < size0")
    case True
    show ?thesis
    proof (cases "factory s")
      case (Inl e)
      with True show ?thesis by (subst parseChunk_loop.simps) simp
    next
      case (Inr xs)
      obtain x s' where xs: "xs = (x, s')" by (cases xs)
      with Inr less.prems have "stream_ip s < stream_ip s'" by (auto simp: advances_def)
      with True have "size0 - stream_ip s' < size0 - stream_ip s" by simp
      from less.hyps[OF this less.prems, of "acc @ [x]"] Inr xs True show ?thesis
        by (subst parseChunk_loop.simps) simp
    qed
  next
    case False
    then show ?thesis by (subst parseChunk_loop.simps) simp
  qed
qed

lemma parseChunk_returns:
  "advances factory \<Longrightarrow> \<exists>r. parseChunk c data type0 factory = Some r"
  by (auto simp: parseChunk_def intro: parseChunk_loop_returns)

lemma loadSample_header_returns: "\<exists>r. loadSample_header off data h = Some r"
proof -
  have h: "adjustSampleData s0 rate \<noteq> None" if "0 < rate" for s0 rate
    unfolding adjustSampleData_def using adjust_loop_returns[OF that, of 22050 s0 1] by auto
  show ?thesis
    unfolding loadSample_header_def
    by (auto simp: h split: sum.splits option.splits)
qed

lemma loadSample_returns: "\<exists>r. loadSample hs off data = Some r"
proof (induction hs)
  case Nil
  then show ?case by simp
next
  case (Cons h hs)
  have "\<exists>r. and_then (loadSample hs off data) (\<lambda>(ss, hs'). Some (Inr (s # ss, h' # hs'))) = Some r"
    for s h'
    by (rule and_then_returns[OF Cons.IH]) (simp split: prod.splits)
  then have "\<exists>r. (case x of (s, h') \<Rightarrow>
       and_then (loadSample hs off data) (\<lambda>(ss, hs'). Some (Inr (s # ss, h' # hs')))) = Some r"
    for x
    by (cases x) simp
  then have "\<exists>r. and_then (loadSample_header off data h) (\<lambda>(s, h').
       and_then (loadSample hs off data) (\<lambda>(ss, hs'). Some (Inr (s # ss, h' # hs')))) = Some r"
    by (rule and_then_returns[OF loadSample_header_returns])
  then  show ?case by simp
qed

lemma parsePdtaList_returns:
  assumes "factories_advance ext"
  shows "\<exists>r. parsePdtaList ext c data = Some r"
proof -
  from assms have a:
    "advances (PresetHeader_parse ext)" "advances (PresetBag_parse ext)"
    "advances (Instrument_parse ext)" "advances (InstrumentBag_parse ext)"
    "advances (ModulatorList_parse ext)" "advances (GeneratorList_parse ext)"
    "advances (SampleHeader_parse ext)"
    by (simp_all add: factories_advance_def)
  have r: "\<exists>r. parsePhdr ext c0 data = Some r" "\<exists>r. parsePbag ext c0 data = Some r"
    "\<exists>r. parsePmod ext c0 data = Some r" "\<exists>r. parsePgen ext c0 data = Some r"
    "\<exists>r. parseInst ext c0 data = Some r" "\<exists>r. parseIbag ext c0 data = Some r"
    "\<exists>r. parseImod ext c0 data = Some r" "\<exists>r. parseIgen ext c0 data = Some r"
    "\<exists>r. parseShdr ext c0 data = Some r" for c0
    unfolding parsePhdr_def parsePbag_def parsePmod_def parsePgen_def parseInst_def
      parseIbag_def parseImod_def parseIgen_def parseShdr_def
    by (auto intro!: and_then_returns parseChunk_returns a)
  show ?thesis
  proof (cases "getChunkList ext c data ''LIST'' ''pdta''")
    case (Inl e)
    then show ?thesis by (simp add: parsePdtaList_def)
  next
    case (Inr chunkList)
    show ?thesis
    proof (cases "length chunkList = 9")
      case False
      with Inr show ?thesis by (simp add: parsePdtaList_def)
    next
      case True
      with Inr show ?thesis
        unfolding parsePdtaList_def
        by simp (intro and_then_returns r, simp)
    qed
  qed
qed

lemma parseRiffChunk_returns:
  assumes "factories_advance ext"
  shows "\<exists>r. parseRiffChunk ext c data = Some r"
proof (cases "getChunkList ext c data ''RIFF'' ''sfbk''")
  case (Inl e)
  then show ?thesis by (simp add: parseRiffChunk_def)
next
  case (Inr chunkList)
  show ?thesis
  proof (cases "length chunkList = 3")
    case False
    with Inr show ?thesis by (simp add: parseRiffChunk_def)
  next
    case True
    with Inr show ?thesis
      unfolding parseRiffChunk_def
      by simp (intro and_then_returns parsePdtaList_returns[OF assms], simp_all)
  qed
qed

lemma parse_returns:
  assumes "factories_advance ext"
  shows "\<exists>r. parse ext input option0 = Some r"
proof (cases "parseRiff ext input 0 (int (length input)) (Some option0)")
  case (Inl e)
  then show ?thesis by (simp add: parse_def)
next
  case (Inr chunkList)
  show ?thesis
  proof (cases "length chunkList = 1")
    case False
    with Inr show ?thesis by (simp add: parse_def)
  next
    case True
    with Inr show ?thesis
      unfolding parse_def
      by simp (intro and_then_returns parseRiffChunk_returns[OF assms] loadSample_returns,
               simp split: prod.splits)
  qed
qed

lemma ceil_div_step:
  fixes w :: nat
  assumes "0 < w" "p < size0"
  shows "(size0 - (p + w) + (w - 1)) div w + 1 = (size0 - p + (w - 1)) div w"
proof (cases "p + w \<le> size0")
  case True
  define a where "a = size0 - (p + w) + (w - 1)"
  from True have e: "size0 - p + (w - 1) = a + w" unfolding a_def by linarith
  from assms(1) have "w \<noteq> 0" by simp
  then have "(a + w) div w = a div w + 1" by (rule div_add_self2)
  then show ?thesis unfolding e a_def[symmetric] by simp
next
  case False
  then have z: "size0 - (p + w) = 0" by simp
  define b where "b = size0 - p + (w - 1)"
  from False assms have "w \<le> b" "b < w * 2" unfolding b_def by linarith+
  then have "b div w = 1"
    by (intro div_nat_eqI) simp_all
  with z assms(1) show ?thesis unfolding b_def by simp
qed

lemma parseGenerator_loop_length:
  "length (parseGenerator_loop data size0 p acc) = length acc + (size0 - p + 3) div 4"
proof (induction data size0 p acc rule: parseGenerator_loop.induct)
  case (1 data size0 p acc)
  show ?case
  proof (cases "p < size0")
    case True
    from ceil_div_step[of 4 p size0] True
    have "(size0 - (p + 4) + 3) div 4 + 1 = (size0 - p + 3) div 4" by simp
    with "1.IH"[OF True] True show ?thesis
      by (subst parseGenerator_loop.simps) (simp del: parseGenerator_loop.simps)
  next
    case False
    then show ?thesis by (subst parseGenerator_loop.simps) simp
  qed
qed

lemma parseModulator_loop_length:
  "length (parseModulator_loop data size0 p acc) = length acc + (size0 - p + 9) div 10"
proof (induction data size0 p acc rule: parseModulator_loop.induct)
  case (1 data size0 p acc)
  show ?case
  proof (cases "p < size0")
    case True
    from ceil_div_step[of 10 p size0] True
    have "(size0 - (p + 10) + 9) div 10 + 1 = (size0 - p + 9) div 10" by simp
    with "1.IH"[OF True] True show ?thesis by (subst parseModulator_loop.simps) (simp del: parseModulator_loop.simps)
  next
    case False
    then show ?thesis by (subst parseModulator_loop.simps) simp
  qed
qed

lemma parsePhdr_loop_length:
  "length (parsePhdr_loop data size0 p acc) = length acc + (size0 - p + 37) div 38"
proof (induction data size0 p acc rule: parsePhdr_loop.induct)
  case (1 data size0 p acc)
  show ?case
  proof (cases "p < size0")
    case True
    from ceil_div_step[of 38 p size0] True
    have "(size0 - (p + 38) + 37) div 38 + 1 = (size0 - p + 37) div 38" by simp
    with "1.IH"[OF True] True show ?thesis by (subst parsePhdr_loop.simps) (simp del: parsePhdr_loop.simps)
  next
    case False
    then show ?thesis by (subst parsePhdr_loop.simps) simp
  qed
qed

lemma parseInst_loop_length:
  "length (parseInst_loop data size0 p acc) = length acc + (size0 - p + 21) div 22"
proof (induction data size0 p acc rule: parseInst_loop.induct)
  case (1 data size0 p acc)
  show ?case
  proof (cases "p < size0")
    case True
    from ceil_div_step[of 22 p size0] True
    have "(size0 - (p + 22) + 21) div 22 + 1 = (size0 - p + 21) div 22" by simp
    with "1.IH"[OF True] True show ?thesis by (subst parseInst_loop.simps) (simp del: parseInst_loop.simps)
  next
    case False
    then show ?thesis by (subst parseInst_loop.simps) simp
  qed
qed

lemma parseBag_loop_length:
  "length (parseBag_loop mk data size0 p acc) = length acc + (size0 - p + 3) div 4"
proof (induction mk data size0 p acc rule: parseBag_loop.induct)
  case (1 mk data size0 p acc)
  show ?case
  proof (cases "p < size0")
    case True
    from ceil_div_step[of 4 p size0] True
    have "(size0 - (p + 4) + 3) div 4 + 1 = (size0 - p + 3) div 4" by simp
    with "1.IH"[OF True] True show ?thesis by (subst parseBag_loop.simps) (simp del: parseBag_loop.simps)
  next
    case False
    then show ?thesis by (subst parseBag_loop.simps) simp
  qed
qed

lemma advances_fixed_record: "0 < width \<Longrightarrow> advances (spec_fixed_record width decode)"
  by (auto simp: advances_def spec_fixed_record_def split: if_splits)

lemma spec_factories_advance: "factories_advance spec_externals"
  by (simp add: factories_advance_def spec_externals_def advances_fixed_record)

lemma adjust_loop_no_result:
  assumes "adjustSampleData_loop threshold smp multiply rate = Some y"
  shows "0 < rate \<or> threshold \<le> rate"
  using assms
proof (induction arbitrary: y rule: adjustSampleData_loop.raw_induct[rotated 1, consumes 1])
  case (1 f threshold smp multiply rate y)
  show ?case
  proof (cases "rate < threshold")
    case True
    with 1(2) have "f threshold (newSample smp) (multiply * 2) (rate * 2) = Some y"
      by simp
    from 1(1)[OF this] True show ?thesis by auto
  next
    case False
    then show ?thesis by simp
  qed
qed

lemma adjust_loop_diverges:
  "rate \<le> 0 \<Longrightarrow> rate < threshold \<Longrightarrow> adjustSampleData_loop threshold smp multiply rate = None"
  using adjust_loop_no_result[of threshold smp multiply rate]
  by (cases "adjustSampleData_loop threshold smp multiply rate") auto

text \<open>
  Claim C9. Decoding terminates. The doubling loop returns whenever the rate is positive,
  after the number of doublings that brings the rate to the threshold; both callers run
  it only under the guard \<open>sampleRate > 0\<close>, so \<open>Parser.parseShdr\<close> and
  \<open>loadSample\<close> return for every input (for a rate that is not positive and below
  the threshold the loop itself would not return). The loop of \<open>parseChunk\<close>
  returns when the record decoder it is given advances the stream, and then \<open>parse\<close>
  returns for every input buffer. The record loops of the legacy class run once per
  record width up to the end of the chunk.
\<close>

theorem decoding_terminates:
  "(0 < rate \<longrightarrow>
      (\<exists>k. adjustSampleData_loop threshold smp multiply rate =
             Some ((newSample ^^ k) smp, multiply * 2 ^ k) \<and> threshold \<le> rate * 2 ^ k)) \<and>
   (\<exists>r. Parser_parseShdr this_sampleRate samplingData0 data c = Some r) \<and>
   (\<exists>r. loadSample headers offset data = Some r) \<and>
   (advances factory \<longrightarrow> (\<exists>r. parseChunk c data type0 factory = Some r)) \<and>
   (factories_advance ext \<longrightarrow> (\<exists>r. parse ext input option0 = Some r)) \<and>
   length (parseGenerator data c) = (chunk_size c + 3) div 4 \<and>
   length (parseModulator data c) = (chunk_size c + 9) div 10 \<and>
   length (parsePhdr_loop data (chunk_offset c + chunk_size c) (chunk_offset c) []) =
     (chunk_size c + 37) div 38 \<and>
   length (parseInst_loop data (chunk_offset c + chunk_size c) (chunk_offset c) []) =
     (chunk_size c + 21) div 22 \<and>
   length (parseBag_loop mk data (chunk_offset c + chunk_size c) (chunk_offset c) []) =
     (chunk_size c + 3) div 4"
proof -
  have a: "0 < rate \<longrightarrow>
      (\<exists>k. adjustSampleData_loop threshold smp multiply rate =
             Some ((newSample ^^ k) smp, multiply * 2 ^ k) \<and> threshold \<le> rate * 2 ^ k)"
    using adjust_loop_result by blast
  have b: "advances factory \<longrightarrow> (\<exists>r. parseChunk c data type0 factory = Some r)"
    by (rule impI) (rule parseChunk_returns)
  have d: "factories_advance ext \<longrightarrow> (\<exists>r. parse ext input option0 = Some r)"
    by (rule impI) (rule parse_returns)
  have e: "length (parseGenerator data c) = (chunk_size c + 3) div 4"
    "length (parseModulator data c) = (chunk_size c + 9) div 10"
    by (simp_all add: parseGenerator_def parseModulator_def parseGenerator_loop_length
          parseModulator_loop_length del: parseGenerator_loop.simps parseModulator_loop.simps)
  have f: "length (parsePhdr_loop data (chunk_offset c + chunk_size c) (chunk_offset c) []) =
     (chunk_size c + 37) div 38"
    "length (parseInst_loop data (chunk_offset c + chunk_size c) (chunk_offset c) []) =
     (chunk_size c + 21) div 22"
    "length (parseBag_loop mk data (chunk_offset c + chunk_size c) (chunk_offset c) []) =
     (chunk_size c + 3) div 4"
    by (simp_all add: parsePhdr_loop_length parseInst_loop_length parseBag_loop_length
          del: parsePhdr_loop.simps parseInst_loop.simps parseBag_loop.simps)
  show ?thesis
    by (intro conjI a b d e f Parser_parseShdr_returns loadSample_returns)
qed

theorem decoding_terminates_witness:
  "(0::int) < 11025 \<and>
   adjustSampleData_loop 22050 [1, 2, 3] 1 11025 = Some ([1, 1, 2, 2, 3, 3], 2) \<and>
   adjustSampleData_loop 22050 [1, 2, 3] 1 0 = None \<and>
   advances (PresetHeader_parse spec_externals) \<and>
   factories_advance spec_externals \<and>
   (\<exists>r. parseChunk \<lparr>chunk_type = ''phdr'', chunk_size = 38, chunk_offset = 64\<rparr> example_sf2
          ''phdr'' (PresetHeader_parse spec_externals) = Some r) \<and>
   (\<exists>r. parse spec_externals example_sf2 () = Some r)"
proof -
  have a: "advances (PresetHeader_parse spec_externals)"
    using spec_factories_advance by (simp add: factories_advance_def)
  have b: "adjustSampleData_loop 22050 [1, 2, 3] 1 11025 = Some ([1, 1, 2, 2, 3, 3], 2)"
    by code_simp
  have n: "adjustSampleData_loop 22050 [1, 2, 3] 1 0 = None"
    by (rule adjust_loop_diverges) simp_all
  note t = decoding_terminates[of 11025 22050 "[1, 2, 3]" 1 22050
      "\<lparr>chunk_type = ''smpl'', chunk_size = 0, chunk_offset = 44\<rparr>" example_sf2
      "\<lparr>chunk_type = ''phdr'', chunk_size = 38, chunk_offset = 64\<rparr>" "[]" 0
      "PresetHeader_parse spec_externals" "''phdr''" spec_externals example_sf2 "()"
      parsePbag_record]
  note t1 = t[THEN conjunct2, THEN conjunct2, THEN conjunct2, THEN conjunct1]
  note t2 = t[THEN conjunct2, THEN conjunct2, THEN conjunct2, THEN conjunct2, THEN conjunct1]
  from t1 t2 a b n spec_factories_advance show ?thesis by simp
qed

end
